theory Spec2Isabelle
  imports Main
begin

text \<open>
  A model of \<open>todo_calendar_gui.py\<close>: the week view and the task form of the page
  (JavaScript), the time expression parser and the calendar gateway of \<open>CalendarAPI\<close>
  (Python). The libraries whose answers the code only passes on are parameters of the
  model: \<open>dateparser.parse\<close>, \<open>datetime.fromisoformat\<close>, the client of the remote
  calendar and the run of \<open>osascript\<close>. The definitions come first, the properties
  after them.
\<close>

section \<open>Strings\<close>

text \<open>
  A Python or JavaScript string is a sequence of Unicode code points; the range
  pattern of \<open>parse_time\<close> contains the en-dash U+2013, so a string is a list of
  code points. \<open>ascii\<close> embeds an ASCII literal.
\<close>

type_synonym ustr = "nat list"

definition ascii :: "string \<Rightarrow> ustr" where
  "ascii s = map of_char s"

section \<open>The week view (JavaScript: renderCalendar, updateTodaySchedule)\<close>

text \<open>
  An event as \<open>get_events\<close> hands it to the page. \<open>ev_start\<close> and \<open>ev_end\<close> are
  the values of \<open>new Date(event.start)\<close> and \<open>new Date(event.end)\<close>, the strings being
  the timestamps of the remote calendar: milliseconds since the epoch. The differences
  and the quotient by the length of a day are taken on integers; the doubles of
  JavaScript give the same floor for every pair of dates within 2^26 days.
\<close>

record event =
  ev_id :: ustr
  title :: ustr
  ev_start :: int
  ev_end :: int
  isAllDay :: bool

text \<open>An entry of \<open>eventsByDay\<close> or \<open>allDayByDay\<close>: the event and its colour class.\<close>

record placed =
  p_event :: event
  colorClass :: string

definition DAY_MS :: int where
  "DAY_MS = 24 * 60 * 60 * 1000"

text \<open>\<open>Math.floor((start - weekStart) / (24 * 60 * 60 * 1000))\<close>\<close>

definition dayIdx_of :: "int \<Rightarrow> int \<Rightarrow> int" where
  "dayIdx_of start weekStart = (start - weekStart) div DAY_MS"

text \<open>\<open>buckets[i].push(x)\<close>\<close>

definition push_at :: "'a list list \<Rightarrow> nat \<Rightarrow> 'a \<Rightarrow> 'a list list" where
  "push_at buckets i x = buckets[i := buckets ! i @ [x]]"

text \<open>The body of \<open>events.forEach\<close> in \<open>renderCalendar\<close>.\<close>

definition group_step ::
  "int \<Rightarrow> int \<Rightarrow> placed list list \<times> placed list list \<Rightarrow> event
     \<Rightarrow> placed list list \<times> placed list list" where
  "group_step weekStart now acc event =
     (case acc of (eventsByDay, allDayByDay) \<Rightarrow>
        let dayIdx = dayIdx_of (ev_start event) weekStart;
            isCompleted = ev_end event < now;
            item = \<lparr>p_event = event,
                    colorClass = (if isCompleted then ''event-completed'' else ''event-normal'')\<rparr>
        in if dayIdx \<ge> 0 \<and> dayIdx < 7 then
             (if isAllDay event
              then (eventsByDay, push_at allDayByDay (nat dayIdx) item)
              else (push_at eventsByDay (nat dayIdx) item, allDayByDay))
           else (eventsByDay, allDayByDay))"

definition groupByDay ::
  "event list \<Rightarrow> int \<Rightarrow> int \<Rightarrow> placed list list \<times> placed list list" where
  "groupByDay events weekStart now =
     foldl (group_step weekStart now) (replicate 7 [], replicate 7 []) events"

text \<open>The status glyph of a sidebar entry: open circle, check mark, triangle.\<close>

datatype status = Upcoming | Completed | InProgress

record schedule_item =
  s_event :: event
  s_completed :: bool
  s_status :: status

text \<open>
  The sidebar is either the note "Your day is clear" or the list of entries.
\<close>

datatype sidebar = DayClear | Agenda "schedule_item list"

definition schedule_entry :: "int \<Rightarrow> event \<Rightarrow> schedule_item" where
  "schedule_entry now event =
     (let isCompleted = ev_end event < now
      in \<lparr>s_event = event,
          s_completed = isCompleted,
          s_status = (if isCompleted then Completed
                      else if ev_start event \<le> now \<and> now \<le> ev_end event then InProgress
                      else Upcoming)\<rparr>)"

text \<open>
  \<open>todayEvents\<close>: the filter and the sort of \<open>updateTodaySchedule\<close>. The sort of
  an array is stable, as \<open>sort_key\<close> is.
\<close>

definition todayEvents :: "event list \<Rightarrow> int \<Rightarrow> int \<Rightarrow> event list" where
  "todayEvents events weekStart todayIdx =
     sort_key ev_start
       (filter (\<lambda>event. \<not> isAllDay event
                  \<and> dayIdx_of (ev_start event) weekStart = todayIdx) events)"

definition updateTodaySchedule :: "event list \<Rightarrow> int \<Rightarrow> int \<Rightarrow> int \<Rightarrow> sidebar" where
  "updateTodaySchedule events weekStart todayIdx now =
     (let evs = todayEvents events weekStart todayIdx
      in if length evs = 0 then DayClear
         else Agenda (map (schedule_entry now) evs))"

text \<open>
  The readings of the clock in one rendering: \<open>new Date()\<close> in \<open>renderCalendar\<close>
  with its \<open>getDay()\<close> (0 is Sunday), and \<open>new Date()\<close> in \<open>updateTodaySchedule\<close>.
\<close>

record clock =
  render_now :: int
  render_getDay :: nat
  sidebar_now :: int

record render_plan =
  todayHeader :: "bool list"
  eventsByDay :: "placed list list"
  allDayByDay :: "placed list list"
  todaySchedule :: sidebar

definition todayIdx_of :: "nat \<Rightarrow> int" where
  "todayIdx_of getDay = (if getDay = 0 then 6 else int getDay - 1)"

definition renderCalendar :: "event list \<Rightarrow> int \<Rightarrow> int \<Rightarrow> clock \<Rightarrow> render_plan" where
  "renderCalendar events weekStart weekOffset clk =
     (let now = render_now clk;
          todayIdx = todayIdx_of (render_getDay clk);
          isCurrentWeek = (weekOffset = 0);
          groups = groupByDay events weekStart now
      in \<lparr>todayHeader = map (\<lambda>i. isCurrentWeek \<and> int i = todayIdx) [0..<7],
          eventsByDay = fst groups,
          allDayByDay = snd groups,
          todaySchedule = updateTodaySchedule events weekStart todayIdx (sidebar_now clk)\<rparr>)"

text \<open>The colour class of every entry of a list of buckets follows \<open>end < now\<close>.\<close>

definition colour_ok :: "int \<Rightarrow> placed list list \<Rightarrow> bool" where
  "colour_ok now bs =
     (\<forall>bl \<in> set bs. \<forall>p \<in> set bl.
        colorClass p = (if ev_end (p_event p) < now then ''event-completed'' else ''event-normal''))"

subsection \<open>Example inputs\<close>

text \<open>
  Times are in milliseconds since the epoch, read in UTC: the week of Monday 2026-11-09
  (1794182400000), and a clock that stands at Wednesday 2026-11-04, 12:00, in the week
  before it.
\<close>

definition ev_anchor :: event where
  "ev_anchor = \<lparr>ev_id = ascii ''a'', title = ascii ''standup'',
                ev_start = 1794182400000, ev_end = 1794186000000, isAllDay = False\<rparr>"

definition ev_week_later :: event where
  "ev_week_later = \<lparr>ev_id = ascii ''b'', title = ascii ''standup'',
                ev_start = 1794787200000, ev_end = 1794790800000, isAllDay = False\<rparr>"

definition clk_wed :: clock where
  "clk_wed = \<lparr>render_now = 1793793600000, render_getDay = 3, sidebar_now = 1793793600000\<rparr>"

definition ev_ends_now :: event where
  "ev_ends_now = \<lparr>ev_id = ascii ''c'', title = ascii ''review'',
                  ev_start = 1793786400000, ev_end = 1793790000000, isAllDay = False\<rparr>"

definition clk_at_end :: clock where
  "clk_at_end = \<lparr>render_now = 1793790000000, render_getDay = 3, sidebar_now = 1793790000000\<rparr>"

definition ev_next_wed :: event where
  "ev_next_wed = \<lparr>ev_id = ascii ''d'', title = ascii ''dentist'',
                  ev_start = 1794391200000, ev_end = 1794394800000, isAllDay = False\<rparr>"

section \<open>Regular expressions (Python: re.search)\<close>

text \<open>
  The part of Python's \<open>re\<close> that the two patterns of \<open>parse_time\<close> use, as a
  backtracking matcher. A state is the rest of the subject with the groups captured so
  far (the latest first). \<open>ms r st\<close> lists the states in which a match of \<open>r\<close>
  from \<open>st\<close> can end, in the order in which backtracking tries them, so that its head
  is the match that \<open>re\<close> finds: the greedy star prefers one more round, the lazy star
  prefers to stop, an alternative prefers its left branch. A round of a star that
  consumes nothing is not repeated.
\<close>

datatype rx =
    Eps
  | Cls "nat \<Rightarrow> bool"
  | Eol
  | Seq rx rx
  | Alt rx rx
  | Star rx
  | LazyStar rx
  | Group nat rx

type_synonym mstate = "ustr \<times> (nat \<times> ustr) list"

function ms :: "rx \<Rightarrow> mstate \<Rightarrow> mstate list" where
  "ms Eps st = [st]"
| "ms (Cls p) st =
     (case fst st of [] \<Rightarrow> [] | x # xs \<Rightarrow> if p x then [(xs, snd st)] else [])"
| "ms Eol st = (if fst st = [] \<or> fst st = [10] then [st] else [])"
| "ms (Seq a b) st = concat (map (ms b) (ms a st))"
| "ms (Alt a b) st = ms a st @ ms b st"
| "ms (Star r) st =
     concat (map (\<lambda>st'. if length (fst st') < length (fst st) then ms (Star r) st' else [])
                 (ms r st)) @ [st]"
| "ms (LazyStar r) st =
     st # concat (map (\<lambda>st'. if length (fst st') < length (fst st)
                               then ms (LazyStar r) st' else [])
                      (ms r st))"
| "ms (Group n r) st =
     map (\<lambda>st'. (fst st', (n, take (length (fst st) - length (fst st')) (fst st)) # snd st'))
         (ms r st)"
  by pat_completeness auto
termination
  by (relation "measures [\<lambda>(r, st). size r, \<lambda>(r, st). length (fst st)]") auto

text \<open>\<open>r+\<close>, \<open>r+?\<close>, \<open>r?\<close> and a sequence.\<close>

definition Plus :: "rx \<Rightarrow> rx" where
  "Plus r = Seq r (Star r)"

definition LazyPlus :: "rx \<Rightarrow> rx" where
  "LazyPlus r = Seq r (LazyStar r)"

definition Opt :: "rx \<Rightarrow> rx" where
  "Opt r = Alt r Eps"

fun Seqs :: "rx list \<Rightarrow> rx" where
  "Seqs [] = Eps"
| "Seqs [r] = r"
| "Seqs (r # rs) = Seq r (Seqs rs)"

text \<open>
  \<open>re.search\<close>: the first match from the leftmost position that has one; the result
  is the list of captured groups.
\<close>

fun re_search :: "rx \<Rightarrow> ustr \<Rightarrow> (nat \<times> ustr) list option" where
  "re_search r s =
     (case ms r (s, []) of
        st # _ \<Rightarrow> Some (snd st)
      | [] \<Rightarrow> (case s of [] \<Rightarrow> None | _ # s' \<Rightarrow> re_search r s'))"

subsection \<open>Character classes\<close>

text \<open>
  The classes of a \<open>str\<close> pattern are the Unicode ones. \<open>\s\<close> is the white space of
  \<open>str.isspace\<close>; \<open>\d\<close> is the category Nd (Unicode 14, the tables of Python 3.11):
  the ASCII digits and the ranges of \<open>nd_ranges\<close>. The dot is anything but a newline.
\<close>

definition is_space :: "nat \<Rightarrow> bool" where
  "is_space c = ((9 \<le> c \<and> c \<le> 13) \<or> (28 \<le> c \<and> c \<le> 32) \<or> c = 133 \<or> c = 160
                 \<or> c = 5760 \<or> (8192 \<le> c \<and> c \<le> 8202) \<or> c = 8232 \<or> c = 8233
                 \<or> c = 8239 \<or> c = 8287 \<or> c = 12288)"

definition nd_ranges :: "(nat \<times> nat) list" where
  "nd_ranges =
     [(1632, 1641), (1776, 1785), (1984, 1993), (2406, 2415), (2534, 2543), (2662, 2671),
      (2790, 2799), (2918, 2927), (3046, 3055), (3174, 3183), (3302, 3311), (3430, 3439),
      (3558, 3567), (3664, 3673), (3792, 3801), (3872, 3881), (4160, 4169), (4240, 4249),
      (6112, 6121), (6160, 6169), (6470, 6479), (6608, 6617), (6784, 6793), (6800, 6809),
      (6992, 7001), (7088, 7097), (7232, 7241), (7248, 7257), (42528, 42537),
      (43216, 43225), (43264, 43273), (43472, 43481), (43504, 43513), (43600, 43609),
      (44016, 44025), (65296, 65305), (66720, 66729), (68912, 68921), (69734, 69743),
      (69872, 69881), (69942, 69951), (70096, 70105), (70384, 70393), (70736, 70745),
      (70864, 70873), (71248, 71257), (71360, 71369), (71472, 71481), (71904, 71913),
      (72016, 72025), (72784, 72793), (73040, 73049), (73120, 73129), (92768, 92777),
      (92864, 92873), (93008, 93017), (120782, 120831), (123200, 123209), (123632, 123641),
      (125264, 125273), (130032, 130041)]"

definition is_digit :: "nat \<Rightarrow> bool" where
  "is_digit c = ((48 \<le> c \<and> c \<le> 57) \<or> list_ex (\<lambda>(lo, hi). lo \<le> c \<and> c \<le> hi) nd_ranges)"

definition dot :: "nat \<Rightarrow> bool" where
  "dot c = (c \<noteq> 10)"

text \<open>
  A letter under \<open>re.IGNORECASE\<close>: the letters used here (a, m, p, t, o) match
  themselves and their capitals, and nothing else.
\<close>

definition ichar :: "char \<Rightarrow> rx" where
  "ichar ch = Cls (\<lambda>c. c = of_char ch \<or> c + 32 = of_char ch)"

text \<open>\<open>[-\<dots>to]\<close> under \<open>re.IGNORECASE\<close>: hyphen, en-dash U+2013, t, o, T, O.\<close>

definition sep_class :: "nat \<Rightarrow> bool" where
  "sep_class c = (c = 45 \<or> c = 8211 \<or> c = 116 \<or> c = 111 \<or> c = 84 \<or> c = 79)"

subsection \<open>The patterns of parse_time\<close>

definition ampm :: rx where
  "ampm = Alt (Seq (ichar CHR ''a'') (ichar CHR ''m'')) (Seq (ichar CHR ''p'') (ichar CHR ''m''))"

text \<open>
  \<open>(.+?)\s*[-\<dots>to]+\s*(\d{1,2}(?::\d{2})?\s*(?:am|pm)?)\s*$\<close>
\<close>

definition range_pattern :: rx where
  "range_pattern =
     Seqs [Group 1 (LazyPlus (Cls dot)),
           Star (Cls is_space),
           Plus (Cls sep_class),
           Star (Cls is_space),
           Group 2 (Seqs [Cls is_digit, Opt (Cls is_digit),
                          Opt (Seqs [Cls (\<lambda>c. c = 58), Cls is_digit, Cls is_digit]),
                          Star (Cls is_space),
                          Opt ampm]),
           Star (Cls is_space),
           Eol]"

text \<open>\<open>(am|pm)\<close>\<close>

definition ampm_pattern :: rx where
  "ampm_pattern = Group 1 ampm"

text \<open>\<open>str.strip()\<close>\<close>

definition strip :: "ustr \<Rightarrow> ustr" where
  "strip s = rev (dropWhile is_space (rev (dropWhile is_space s)))"

text \<open>
  The match of the range pattern, as \<open>parse_time\<close> reads it: \<open>match.group(1).strip()\<close>
  and \<open>match.group(2).strip()\<close>.
\<close>

definition range_match :: "ustr \<Rightarrow> (ustr \<times> ustr) option" where
  "range_match time_input =
     (case re_search range_pattern time_input of
        None \<Rightarrow> None
      | Some groups \<Rightarrow>
          (case (map_of groups 1, map_of groups 2) of
             (Some g1, Some g2) \<Rightarrow> Some (strip g1, strip g2)
           | _ \<Rightarrow> None))"

definition has_ampm :: "ustr \<Rightarrow> bool" where
  "has_ampm s = (re_search ampm_pattern s \<noteq> None)"

section \<open>Exceptions\<close>

text \<open>
  An exception is its class; the text of \<open>str(e)\<close> is not modelled. \<open>HttpError\<close> stands
  for whatever a call to the remote service raises.
\<close>

datatype pyexn = ValueError | TypeError | KeyError | AttributeError | OverflowError | HttpError

section \<open>Dates and times (Python: datetime)\<close>

text \<open>
  A \<open>datetime\<close> object: the fields of the calendar date and the time of day, and the
  offset from UTC in microseconds of an aware object (\<open>None\<close> for a naive one).
\<close>

record datetime =
  year :: nat
  month :: nat
  day :: nat
  hour :: nat
  minute :: nat
  second :: nat
  microsecond :: nat
  utcoffset :: "int option"

definition is_leap :: "nat \<Rightarrow> bool" where
  "is_leap y = (y mod 4 = 0 \<and> (y mod 100 \<noteq> 0 \<or> y mod 400 = 0))"

definition days_in_month :: "nat \<Rightarrow> nat \<Rightarrow> nat" where
  "days_in_month y m =
     (if m = 2 then (if is_leap y then 29 else 28)
      else if m = 4 \<or> m = 6 \<or> m = 9 \<or> m = 11 then 30 else 31)"

definition days_before_year :: "nat \<Rightarrow> int" where
  "days_before_year y =
     (let y1 = int y - 1 in y1 * 365 + y1 div 4 - y1 div 100 + y1 div 400)"

definition days_before_table :: "int list" where
  "days_before_table = [0, 31, 59, 90, 120, 151, 181, 212, 243, 273, 304, 334]"

definition days_before_month :: "nat \<Rightarrow> nat \<Rightarrow> int" where
  "days_before_month y m =
     days_before_table ! ((m - 1) mod 12) + (if m > 2 \<and> is_leap y then 1 else 0)"

text \<open>\<open>toordinal()\<close>: 1 is the first of January of the year 1.\<close>

definition toordinal :: "datetime \<Rightarrow> int" where
  "toordinal d = days_before_year (year d) + days_before_month (year d) (month d) + int (day d)"

text \<open>The fields that a \<open>datetime\<close> object can hold.\<close>

definition valid_datetime :: "datetime \<Rightarrow> bool" where
  "valid_datetime d =
     (1 \<le> year d \<and> year d \<le> 9999 \<and> 1 \<le> month d \<and> month d \<le> 12
      \<and> 1 \<le> day d \<and> day d \<le> days_in_month (year d) (month d)
      \<and> hour d < 24 \<and> minute d < 60 \<and> second d < 60 \<and> microsecond d < 1000000)"

text \<open>Microseconds since the midnight before day 1, on the object's own clock.\<close>

definition wall_micros :: "datetime \<Rightarrow> int" where
  "wall_micros d =
     (((toordinal d * 24 + int (hour d)) * 60 + int (minute d)) * 60 + int (second d)) * 1000000
     + int (microsecond d)"

text \<open>
  Comparison and subtraction: two naive objects by their fields, two aware ones by
  their instants (each object carries its own fixed offset), a naive and an aware one
  raise \<open>TypeError\<close>.
\<close>

definition dt_le :: "datetime \<Rightarrow> datetime \<Rightarrow> pyexn + bool" where
  "dt_le a b =
     (case (utcoffset a, utcoffset b) of
        (None, None) \<Rightarrow> Inr (wall_micros a \<le> wall_micros b)
      | (Some oa, Some ob) \<Rightarrow> Inr (wall_micros a - oa \<le> wall_micros b - ob)
      | _ \<Rightarrow> Inl TypeError)"

text \<open>A \<open>timedelta\<close> is its length in microseconds.\<close>

definition dt_sub :: "datetime \<Rightarrow> datetime \<Rightarrow> pyexn + int" where
  "dt_sub a b =
     (case (utcoffset a, utcoffset b) of
        (None, None) \<Rightarrow> Inr (wall_micros a - wall_micros b)
      | (Some oa, Some ob) \<Rightarrow> Inr ((wall_micros a - oa) - (wall_micros b - ob))
      | _ \<Rightarrow> Inl TypeError)"

text \<open>\<open>d.replace(hour=h)\<close>\<close>

definition replace_hour :: "datetime \<Rightarrow> nat \<Rightarrow> pyexn + datetime" where
  "replace_hour d h =
     (if h \<le> 23 then Inr (d\<lparr>hour := h\<rparr>)
      else Inl ValueError)"

text \<open>
  \<open>int(td.total_seconds() / 60)\<close>: the minutes of a difference, rounded towards zero.
  The two divisions are on doubles; their result has the integer part of the exact
  quotient as long as the difference is shorter than \<open>2^24\<close> minutes (about 31 years).
  The model is the exact quotient: beyond that length the double can reach the next whole
  minute a fraction of a second early.
\<close>

definition whole_minutes :: "int \<Rightarrow> int" where
  "whole_minutes td = (if 0 \<le> td then td div 60000000 else - ((- td) div 60000000))"

subsection \<open>Formatting\<close>

definition pad2 :: "nat \<Rightarrow> ustr" where
  "pad2 n = [48 + n div 10 mod 10, 48 + n mod 10]"

definition pad4 :: "nat \<Rightarrow> ustr" where
  "pad4 n = [48 + n div 1000 mod 10, 48 + n div 100 mod 10, 48 + n div 10 mod 10, 48 + n mod 10]"

definition pad6 :: "nat \<Rightarrow> ustr" where
  "pad6 n = [48 + n div 100000 mod 10, 48 + n div 10000 mod 10, 48 + n div 1000 mod 10,
             48 + n div 100 mod 10, 48 + n div 10 mod 10, 48 + n mod 10]"

text \<open>
  \<open>strftime('%Y-%m-%d')\<close>, the year in four digits. For a year below 1000 this is the
  padded form that the library documents and that the C library of macOS, the platform
  of the application, produces; glibc leaves such a year unpadded. From the year 1000 on
  every platform agrees.
\<close>

definition strftime_date :: "datetime \<Rightarrow> ustr" where
  "strftime_date d = pad4 (year d) @ ascii ''-'' @ pad2 (month d) @ ascii ''-'' @ pad2 (day d)"

definition day_names :: "string list" where
  "day_names = [''Monday'', ''Tuesday'', ''Wednesday'', ''Thursday'', ''Friday'', ''Saturday'',
                ''Sunday'']"

definition month_names :: "string list" where
  "month_names = [''January'', ''February'', ''March'', ''April'', ''May'', ''June'', ''July'',
                  ''August'', ''September'', ''October'', ''November'', ''December'']"

text \<open>\<open>weekday()\<close>: 0 is Monday.\<close>

definition weekday :: "datetime \<Rightarrow> nat" where
  "weekday d = nat ((toordinal d + 6) mod 7)"

definition fmt_A :: "datetime \<Rightarrow> ustr" where
  "fmt_A d = ascii (day_names ! weekday d)"

definition fmt_B :: "datetime \<Rightarrow> ustr" where
  "fmt_B d = ascii (month_names ! ((month d - 1) mod 12))"

definition fmt_I :: "datetime \<Rightarrow> ustr" where
  "fmt_I d = pad2 (if hour d mod 12 = 0 then 12 else hour d mod 12)"

definition fmt_p :: "datetime \<Rightarrow> ustr" where
  "fmt_p d = (if hour d < 12 then ascii ''AM'' else ascii ''PM'')"

text \<open>\<open>strftime('%A, %B %d at %I:%M %p')\<close>\<close>

definition strftime_parsed :: "datetime \<Rightarrow> ustr" where
  "strftime_parsed d =
     fmt_A d @ ascii '', '' @ fmt_B d @ ascii '' '' @ pad2 (day d) @ ascii '' at ''
     @ fmt_I d @ ascii '':'' @ pad2 (minute d) @ ascii '' '' @ fmt_p d"

definition format_offset :: "int \<Rightarrow> ustr" where
  "format_offset off =
     (let a = nat \<bar>off\<bar>;
          ss = a div 1000000 mod 60;
          us = a mod 1000000
      in (if off < 0 then ascii ''-'' else ascii ''+'')
         @ pad2 (a div 3600000000) @ ascii '':'' @ pad2 (a div 60000000 mod 60)
         @ (if ss \<noteq> 0 \<or> us \<noteq> 0 then ascii '':'' @ pad2 ss else [])
         @ (if us \<noteq> 0 then ascii ''.'' @ pad6 us else []))"

text \<open>\<open>isoformat()\<close>, whose date is in four, two and two digits on every platform.\<close>

definition isoformat :: "datetime \<Rightarrow> ustr" where
  "isoformat d =
     strftime_date d @ ascii ''T'' @ pad2 (hour d) @ ascii '':'' @ pad2 (minute d)
     @ ascii '':'' @ pad2 (second d)
     @ (if microsecond d \<noteq> 0 then ascii ''.'' @ pad6 (microsecond d) else [])
     @ (case utcoffset d of None \<Rightarrow> [] | Some off \<Rightarrow> format_offset off)"

section \<open>The time expression parser (Python: CalendarAPI.parse_time)\<close>

text \<open>
  The dictionary that \<open>parse_time\<close> returns: with \<open>"success": True\<close> the rendering, the
  ISO timestamp and the duration (\<open>None\<close> when absent); with \<open>"success": False\<close> the message
  alone.
\<close>

datatype parse_result =
    ParseSuccess (res_parsed: ustr) (res_iso: ustr) (res_duration: "int option")
  | ParseFailure (res_message: ustr)

text \<open>The standard parsing at the end of \<open>parse_time\<close>.\<close>

definition standard_parse :: "(ustr \<Rightarrow> datetime option) \<Rightarrow> ustr \<Rightarrow> parse_result" where
  "standard_parse dateparser_parse time_input =
     (case dateparser_parse time_input of
        Some parsed \<Rightarrow> ParseSuccess (strftime_parsed parsed) (isoformat parsed) None
      | None \<Rightarrow> ParseFailure (ascii ''Could not parse time''))"

text \<open>The end of the range with the period of the start, when it has none of its own.\<close>

definition infer_period :: "datetime \<Rightarrow> ustr \<Rightarrow> ustr" where
  "infer_period start_parsed end_part =
     (if \<not> has_ampm end_part
      then (if hour start_parsed < 12 then end_part @ ascii ''am'' else end_part @ ascii ''pm'')
      else end_part)"

definition end_str_of :: "datetime \<Rightarrow> ustr \<Rightarrow> ustr" where
  "end_str_of start_parsed end_part =
     strftime_date start_parsed @ ascii '' '' @ infer_period start_parsed end_part"

text \<open>
  \<open>parse_time\<close>. The library's \<open>dateparser.parse\<close> (with the setting that prefers
  dates in the future, and its own reading of the clock) is the parameter
  \<open>dateparser_parse\<close>. An exception that leaves \<open>parse_time\<close> is \<open>Inl\<close>.
\<close>

definition parse_time :: "(ustr \<Rightarrow> datetime option) \<Rightarrow> ustr \<Rightarrow> pyexn + parse_result" where
  "parse_time dateparser_parse time_input =
     (case range_match time_input of
        None \<Rightarrow> Inr (standard_parse dateparser_parse time_input)
      | Some (start_part, end_part) \<Rightarrow>
          (case dateparser_parse start_part of
             None \<Rightarrow> Inr (standard_parse dateparser_parse time_input)
           | Some start_parsed \<Rightarrow>
               (case dateparser_parse (end_str_of start_parsed end_part) of
                  None \<Rightarrow> Inr (standard_parse dateparser_parse time_input)
                | Some end_parsed \<Rightarrow>
                    (case dt_le end_parsed start_parsed of
                       Inl e \<Rightarrow> Inl e
                     | Inr before \<Rightarrow>
                         (case (if before then replace_hour end_parsed (hour end_parsed + 12)
                                else Inr end_parsed) of
                            Inl e \<Rightarrow> Inl e
                          | Inr end_parsed' \<Rightarrow>
                              (case dt_sub end_parsed' start_parsed of
                                 Inl e \<Rightarrow> Inl e
                               | Inr td \<Rightarrow>
                                   Inr (ParseSuccess (strftime_parsed start_parsed)
                                          (isoformat start_parsed)
                                          (Some (whole_minutes td)))))))))"

subsection \<open>Example inputs of the parser\<close>

text \<open>A naive \<open>datetime\<close> at a full minute.\<close>

definition naive_at :: "nat \<Rightarrow> nat \<Rightarrow> nat \<Rightarrow> nat \<Rightarrow> nat \<Rightarrow> datetime" where
  "naive_at y m d h mi =
     \<lparr>year = y, month = m, day = d, hour = h, minute = mi, second = 0, microsecond = 0,
      utcoffset = None\<rparr>"

text \<open>
  Stand-ins for \<open>dateparser.parse\<close> in the examples: each knows the two strings that
  \<open>parse_time\<close> asks for, with the clock at 2026-11-04.
\<close>

definition dp_morning :: "ustr \<Rightarrow> datetime option" where
  "dp_morning = map_of [(ascii ''9am'', naive_at 2026 11 4 9 0),
                        (ascii ''2026-11-04 11am'', naive_at 2026 11 4 11 0)]"

definition dp_evening :: "ustr \<Rightarrow> datetime option" where
  "dp_evening = map_of [(ascii ''9pm'', naive_at 2026 11 4 21 0),
                        (ascii ''2026-11-04 8pm'', naive_at 2026 11 4 20 0)]"

definition dp_night :: "ustr \<Rightarrow> datetime option" where
  "dp_night = map_of [(ascii ''11pm'', naive_at 2026 11 4 23 0),
                      (ascii ''2026-11-04 1pm'', naive_at 2026 11 4 13 0)]"

section \<open>Date arithmetic (Python: datetime, timedelta)\<close>

text \<open>
  The date of an ordinal, as the library computes it: cycles of 400, 100, 4 and 1 years,
  then an estimate of the month that is corrected downwards.
\<close>

definition days_in_month_table :: "int list" where
  "days_in_month_table = [31, 28, 31, 30, 31, 30, 31, 31, 30, 31, 30, 31]"

definition ord2ymd :: "int \<Rightarrow> nat \<times> nat \<times> nat" where
  "ord2ymd ordinal =
     (let n0 = ordinal - 1;
          n400 = n0 div 146097; n1 = n0 mod 146097;
          n100 = n1 div 36524; n2 = n1 mod 36524;
          n4 = n2 div 1461; n3 = n2 mod 1461;
          n1y = n3 div 365; n = n3 mod 365;
          y = n400 * 400 + 1 + n100 * 100 + n4 * 4 + n1y
      in if n1y = 4 \<or> n100 = 4 then (nat (y - 1), 12, 31)
         else
           let leapyear = (n1y = 3 \<and> (n4 \<noteq> 24 \<or> n100 = 3));
               month = (n + 50) div 32;
               preceding = days_before_table ! nat ((month - 1) mod 12)
                           + (if month > 2 \<and> leapyear then 1 else 0)
           in if preceding > n
              then let month' = month - 1;
                       preceding' = preceding
                          - (days_in_month_table ! nat ((month' - 1) mod 12)
                             + (if month' = 2 \<and> leapyear then 1 else 0))
                   in (nat y, nat month', nat (n - preceding' + 1))
              else (nat y, nat month, nat (n - preceding + 1)))"

text \<open>
  A \<open>timedelta\<close> is its length in microseconds; its days must be of magnitude at most
  999999999, or the constructor raises \<open>OverflowError\<close>.
\<close>

definition DAY_US :: int where
  "DAY_US = 86400000000"

definition timedelta :: "int \<Rightarrow> pyexn + int" where
  "timedelta us =
     (if - 999999999 \<le> us div DAY_US \<and> us div DAY_US \<le> 999999999 then Inr us
      else Inl OverflowError)"

text \<open>
  \<open>d + td\<close>: the fields of the sum, which keeps the offset of \<open>d\<close>;
  \<open>OverflowError\<close> when the date leaves the years 1 to 9999.
\<close>

definition MAXORDINAL :: int where
  "MAXORDINAL = 3652059"

definition dt_add :: "datetime \<Rightarrow> int \<Rightarrow> pyexn + datetime" where
  "dt_add d td =
     (let total = wall_micros d + td;
          days = total div DAY_US;
          rest = total mod DAY_US
      in if 0 < days \<and> days \<le> MAXORDINAL then
           (case ord2ymd days of (y, m, dd) \<Rightarrow>
              Inr (d\<lparr>year := y, month := m, day := dd,
                     hour := nat (rest div 3600000000),
                     minute := nat (rest div 60000000 mod 60),
                     second := nat (rest div 1000000 mod 60),
                     microsecond := nat (rest mod 1000000)\<rparr>))
         else Inl OverflowError)"

section \<open>Python values\<close>

text \<open>
  The values that cross the bridge from the page and that the remote service returns
  (JSON): \<open>None\<close>, booleans, integers, strings, lists, and dictionaries with string
  keys, in the order of their keys.
\<close>

datatype pyval =
    PNone
  | PBool bool
  | PInt int
  | PStr ustr
  | PList "pyval list"
  | PDict "(ustr \<times> pyval) list"

text \<open>\<open>d[k] = v\<close> on the entries of a dictionary.\<close>

fun dict_set :: "(ustr \<times> pyval) list \<Rightarrow> ustr \<Rightarrow> pyval \<Rightarrow> (ustr \<times> pyval) list" where
  "dict_set [] k v = [(k, v)]"
| "dict_set ((k', v') # d) k v =
     (if k' = k then (k, v) # d else (k', v') # dict_set d k v)"

text \<open>The truth value of \<open>if x\<close>.\<close>

fun truthy :: "pyval \<Rightarrow> bool" where
  "truthy PNone = False"
| "truthy (PBool b) = b"
| "truthy (PInt n) = (n \<noteq> 0)"
| "truthy (PStr s) = (s \<noteq> [])"
| "truthy (PList xs) = (xs \<noteq> [])"
| "truthy (PDict d) = (d \<noteq> [])"

text \<open>\<open>x[k]\<close> with a string \<open>k\<close>.\<close>

fun subscript :: "pyval \<Rightarrow> ustr \<Rightarrow> pyexn + pyval" where
  "subscript (PDict d) k = (case map_of d k of Some v \<Rightarrow> Inr v | None \<Rightarrow> Inl KeyError)"
| "subscript x k = Inl TypeError"

text \<open>\<open>x[k] = v\<close> with a string \<open>k\<close>.\<close>

fun store_item :: "pyval \<Rightarrow> ustr \<Rightarrow> pyval \<Rightarrow> pyexn + pyval" where
  "store_item (PDict d) k v = Inr (PDict (dict_set d k v))"
| "store_item x k v = Inl TypeError"

text \<open>\<open>x.get(k, default)\<close>\<close>

fun method_get :: "pyval \<Rightarrow> ustr \<Rightarrow> pyval \<Rightarrow> pyexn + pyval" where
  "method_get (PDict d) k dflt = Inr (case map_of d k of Some v \<Rightarrow> v | None \<Rightarrow> dflt)"
| "method_get x k dflt = Inl AttributeError"

text \<open>\<open>'T' not in x\<close>\<close>

fun lacks_T :: "pyval \<Rightarrow> pyexn + bool" where
  "lacks_T (PStr s) = Inr (84 \<notin> set s)"
| "lacks_T (PList xs) = Inr (PStr [84] \<notin> set xs)"
| "lacks_T (PDict d) = Inr ([84] \<notin> set (map fst d))"
| "lacks_T x = Inl TypeError"

text \<open>\<open>for event in x\<close>: the elements that the loop visits.\<close>

fun iterate :: "pyval \<Rightarrow> pyexn + pyval list" where
  "iterate (PList xs) = Inr xs"
| "iterate (PDict d) = Inr (map (\<lambda>kv. PStr (fst kv)) d)"
| "iterate (PStr s) = Inr (map (\<lambda>c. PStr [c]) s)"
| "iterate x = Inl TypeError"

subsection \<open>int()\<close>

text \<open>
  \<open>int(s)\<close> of a string: white space around, a sign, decimal digits of any script with
  single underscores between them, at most 4300 digits.
\<close>

definition int_space :: "nat \<Rightarrow> bool" where
  "int_space c = ((9 \<le> c \<and> c \<le> 13) \<or> c = 32 \<or> (128 \<le> c \<and> is_space c))"

definition digit_value :: "nat \<Rightarrow> int" where
  "digit_value c =
     (if 48 \<le> c \<and> c \<le> 57 then int c - 48
      else case find (\<lambda>(lo, hi). lo \<le> c \<and> c \<le> hi) nd_ranges of
             Some (lo, hi) \<Rightarrow> int ((c - lo) mod 10)
           | None \<Rightarrow> 0)"

fun und_digits :: "ustr \<Rightarrow> bool \<Rightarrow> ustr option" where
  "und_digits [] prev = (if prev then Some [] else None)"
| "und_digits (c # cs) prev =
     (if is_digit c then map_option (Cons c) (und_digits cs True)
      else if c = 95 \<and> prev then und_digits cs False
      else None)"

definition py_int :: "ustr \<Rightarrow> pyexn + int" where
  "py_int s =
     (let body = dropWhile int_space s;
          neg = (case body of [] \<Rightarrow> False | c # r \<Rightarrow> c = 45);
          unsigned = (case body of [] \<Rightarrow> [] | c # r \<Rightarrow> if c = 45 \<or> c = 43 then r else body);
          text = rev (dropWhile int_space (rev unsigned))
      in case und_digits text False of
           None \<Rightarrow> Inl ValueError
         | Some ds \<Rightarrow>
             if length ds > 4300 then Inl ValueError
             else Inr ((if neg then - 1 else 1)
                       * foldl (\<lambda>acc c. acc * 10 + digit_value c) 0 ds))"

text \<open>\<open>int(x)\<close>\<close>

fun py_int_val :: "pyval \<Rightarrow> pyexn + int" where
  "py_int_val (PInt n) = Inr n"
| "py_int_val (PBool b) = Inr (if b then 1 else 0)"
| "py_int_val (PStr s) = py_int s"
| "py_int_val x = Inl TypeError"

section \<open>The calendar gateway (Python: CalendarAPI)\<close>

text \<open>
  The client of the remote calendar, as built by \<open>init_calendar\<close>: what each request
  returns when it is executed, its response or the exception it raises. The calendar
  is always \<open>'primary'\<close>; a listing asks for single events ordered by start time.
\<close>

record service =
  events_list :: "ustr \<Rightarrow> ustr \<Rightarrow> pyexn + pyval"
  events_get :: "ustr \<Rightarrow> pyexn + pyval"
  events_update :: "ustr \<Rightarrow> pyval \<Rightarrow> pyexn + pyval"
  events_delete :: "ustr \<Rightarrow> pyexn + pyval"
  events_insert :: "pyval \<Rightarrow> pyexn + pyval"

text \<open>
  What leaves the process: the requests executed against the remote calendar, and the
  AppleScript handed to \<open>osascript\<close>.
\<close>

datatype request =
    ListEvents ustr ustr
  | GetEvent ustr
  | UpdateEvent ustr pyval
  | DeleteEvent ustr
  | InsertEvent pyval
  | RunOsascript ustr

text \<open>
  The state of a \<open>CalendarAPI\<close> object: \<open>self.service\<close>, \<open>None\<close> until
  \<open>init_calendar\<close> has connected. (\<open>self.window\<close> is never read.) Every method below
  returns its result, the state after it and the requests it has made, in order.
\<close>

record api =
  service :: "service option"

text \<open>A message is a fixed text or \<open>str(e)\<close> of the exception caught.\<close>

datatype message = Text ustr | StrOf pyexn

definition exn_bind :: "pyexn + 'a \<Rightarrow> ('a \<Rightarrow> pyexn + 'b) \<Rightarrow> pyexn + 'b" where
  "exn_bind r f = (case r of Inl e \<Rightarrow> Inl e | Inr x \<Rightarrow> f x)"

subsection \<open>get_events\<close>

record week_event =
  we_id :: pyval
  we_title :: pyval
  we_start :: pyval
  we_end :: pyval
  we_isAllDay :: bool

datatype events_result =
    EventsSuccess "week_event list" ustr ustr int
  | EventsFailure "week_event list" message

text \<open>
  \<open>monday\<close> and \<open>sunday\<close> of the week at \<open>week_offset\<close> from the week of \<open>now\<close>.
\<close>

definition week_window :: "datetime \<Rightarrow> int \<Rightarrow> pyexn + datetime \<times> datetime" where
  "week_window now week_offset =
     (let today = now\<lparr>hour := 0, minute := 0, second := 0, microsecond := 0\<rparr>
      in exn_bind (timedelta (int (weekday today) * DAY_US)) (\<lambda>back.
         exn_bind (dt_add today (- back)) (\<lambda>this_monday.
         exn_bind (timedelta (week_offset * 7 * DAY_US)) (\<lambda>weeks.
         exn_bind (dt_add this_monday weeks) (\<lambda>monday.
         exn_bind (timedelta (6 * DAY_US + 23 * 3600000000 + 59 * 60000000 + 59 * 1000000))
           (\<lambda>span.
         exn_bind (dt_add monday span) (\<lambda>sunday.
         Inr (monday, sunday))))))))"

text \<open>One round of the loop over the items of the listing.\<close>

definition event_row :: "pyval \<Rightarrow> pyexn + week_event" where
  "event_row event =
     exn_bind (subscript event (ascii ''start'')) (\<lambda>s.
     exn_bind (method_get s (ascii ''date'') PNone) (\<lambda>s_date.
     exn_bind (method_get s (ascii ''dateTime'') s_date) (\<lambda>start.
     exn_bind (subscript event (ascii ''end'')) (\<lambda>e.
     exn_bind (method_get e (ascii ''date'') PNone) (\<lambda>e_date.
     exn_bind (method_get e (ascii ''dateTime'') e_date) (\<lambda>end.
     exn_bind (method_get event (ascii ''id'') PNone) (\<lambda>eid.
     exn_bind (method_get event (ascii ''summary'') (PStr (ascii ''No title''))) (\<lambda>summary.
     exn_bind (lacks_T start) (\<lambda>all_day.
     Inr \<lparr>we_id = eid, we_title = summary, we_start = start, we_end = end,
          we_isAllDay = all_day\<rparr>)))))))))"

fun event_rows :: "pyval list \<Rightarrow> pyexn + week_event list" where
  "event_rows [] = Inr []"
| "event_rows (event # rest) =
     exn_bind (event_row event) (\<lambda>row.
     exn_bind (event_rows rest) (\<lambda>rows. Inr (row # rows)))"

definition collect_events :: "pyval \<Rightarrow> pyexn + week_event list" where
  "collect_events events_result =
     exn_bind (method_get events_result (ascii ''items'') (PList [])) (\<lambda>items.
     exn_bind (iterate items) event_rows)"

definition get_events :: "api \<Rightarrow> datetime \<Rightarrow> int \<Rightarrow> events_result \<times> api \<times> request list" where
  "get_events self now week_offset =
     (case service self of
        None \<Rightarrow> (EventsFailure [] (Text (ascii ''Not connected'')), self, [])
      | Some svc \<Rightarrow>
          (case week_window now week_offset of
             Inl e \<Rightarrow> (EventsFailure [] (StrOf e), self, [])
           | Inr (monday, sunday) \<Rightarrow>
               let timeMin = isoformat monday @ ascii ''Z'';
                   timeMax = isoformat sunday @ ascii ''Z''
               in (case exn_bind (events_list svc timeMin timeMax) collect_events of
                     Inl e \<Rightarrow> (EventsFailure [] (StrOf e), self, [ListEvents timeMin timeMax])
                   | Inr events \<Rightarrow>
                       (EventsSuccess events (isoformat monday) (isoformat sunday) week_offset,
                        self, [ListEvents timeMin timeMax]))))"

subsection \<open>delete_event and move_event\<close>

datatype op_result = OpSuccess | OpFailure message

definition delete_event :: "api \<Rightarrow> ustr \<Rightarrow> op_result \<times> api \<times> request list" where
  "delete_event self event_id =
     (case service self of
        None \<Rightarrow> (OpFailure (Text (ascii ''Not connected'')), self, [])
      | Some svc \<Rightarrow>
          (case events_delete svc event_id of
             Inl e \<Rightarrow> (OpFailure (StrOf e), self, [DeleteEvent event_id])
           | Inr r \<Rightarrow> (OpSuccess, self, [DeleteEvent event_id])))"

text \<open>The dictionary written for a start or an end.\<close>

definition time_dict :: "datetime \<Rightarrow> pyval" where
  "time_dict d =
     PDict [(ascii ''dateTime'', PStr (isoformat d)),
            (ascii ''timeZone'', PStr (ascii ''America/Los_Angeles''))]"

text \<open>
  The body that \<open>move_event\<close> sends back: the event fetched, with its start and end
  assigned. \<open>fromisoformat\<close> is the library's \<open>datetime.fromisoformat\<close>.
\<close>

definition moved_body ::
  "(ustr \<Rightarrow> pyexn + datetime) \<Rightarrow> pyval \<Rightarrow> ustr \<Rightarrow> pyval \<Rightarrow> pyexn + pyval" where
  "moved_body fromisoformat event new_start_iso duration_minutes =
     exn_bind (fromisoformat (filter (\<lambda>c. c \<noteq> 90) new_start_iso)) (\<lambda>new_start.
     exn_bind (py_int_val duration_minutes) (\<lambda>minutes.
     exn_bind (timedelta (minutes * 60000000)) (\<lambda>td.
     exn_bind (dt_add new_start td) (\<lambda>new_end.
     exn_bind (store_item event (ascii ''start'') (time_dict new_start)) (\<lambda>event1.
     store_item event1 (ascii ''end'') (time_dict new_end))))))"

definition move_event ::
  "api \<Rightarrow> (ustr \<Rightarrow> pyexn + datetime) \<Rightarrow> ustr \<Rightarrow> ustr \<Rightarrow> pyval
     \<Rightarrow> op_result \<times> api \<times> request list" where
  "move_event self fromisoformat event_id new_start_iso duration_minutes =
     (case service self of
        None \<Rightarrow> (OpFailure (Text (ascii ''Not connected'')), self, [])
      | Some svc \<Rightarrow>
          (case events_get svc event_id of
             Inl e \<Rightarrow> (OpFailure (StrOf e), self, [GetEvent event_id])
           | Inr event \<Rightarrow>
               (case moved_body fromisoformat event new_start_iso duration_minutes of
                  Inl e \<Rightarrow> (OpFailure (StrOf e), self, [GetEvent event_id])
                | Inr body \<Rightarrow>
                    (case events_update svc event_id body of
                       Inl e \<Rightarrow> (OpFailure (StrOf e), self,
                                  [GetEvent event_id, UpdateEvent event_id body])
                     | Inr r \<Rightarrow> (OpSuccess, self,
                                  [GetEvent event_id, UpdateEvent event_id body])))))"

subsection \<open>add_task\<close>

text \<open>\<open>s.replace('"', '\\"')\<close>\<close>

definition escape_quotes :: "ustr \<Rightarrow> ustr" where
  "escape_quotes s = concat (map (\<lambda>c. if c = 34 then [92, 34] else [c]) s)"

text \<open>\<open>strftime('%I:%M %p on %A, %B %d').lstrip('0')\<close>\<close>

definition things_time_str :: "datetime \<Rightarrow> ustr" where
  "things_time_str d =
     dropWhile (\<lambda>c. c = 48)
       (fmt_I d @ ascii '':'' @ pad2 (minute d) @ ascii '' '' @ fmt_p d @ ascii '' on ''
        @ fmt_A d @ ascii '', '' @ fmt_B d @ ascii '' '' @ pad2 (day d))"

definition things_script :: "ustr \<Rightarrow> datetime \<Rightarrow> ustr" where
  "things_script task_name scheduled_time =
     (let notes = ascii ''Scheduled: '' @ things_time_str scheduled_time
      in [10] @ ascii ''        tell application '' @ [34] @ ascii ''Things3'' @ [34] @ [10]
         @ ascii ''            set newToDo to make new to do with properties {name:'' @ [34]
         @ escape_quotes task_name @ [34] @ ascii '', notes:'' @ [34]
         @ escape_quotes notes @ [34] @ ascii ''}'' @ [10]
         @ ascii ''            move newToDo to list '' @ [34] @ ascii ''Today'' @ [34] @ [10]
         @ ascii ''        end tell'' @ [10]
         @ ascii ''        '')"

text \<open>
  \<open>add_to_things\<close>: \<open>osascript\<close> tells whether running the script succeeds.
\<close>

definition add_to_things :: "(ustr \<Rightarrow> bool) \<Rightarrow> ustr \<Rightarrow> datetime \<Rightarrow> bool \<times> request list" where
  "add_to_things osascript task_name scheduled_time =
     (let applescript = things_script task_name scheduled_time
      in (osascript applescript, [RunOsascript applescript]))"

definition calendar_body :: "ustr \<Rightarrow> datetime \<Rightarrow> int \<Rightarrow> pyexn + pyval" where
  "calendar_body task_name start_time duration_minutes =
     exn_bind (timedelta (duration_minutes * 60000000)) (\<lambda>td.
     exn_bind (dt_add start_time td) (\<lambda>end_time.
     Inr (PDict [(ascii ''summary'', PStr task_name),
                 (ascii ''start'', time_dict start_time),
                 (ascii ''end'', time_dict end_time)])))"

definition add_to_calendar :: "api \<Rightarrow> ustr \<Rightarrow> datetime \<Rightarrow> int \<Rightarrow> bool \<times> request list" where
  "add_to_calendar self task_name start_time duration_minutes =
     (case service self of
        None \<Rightarrow> (False, [])
      | Some svc \<Rightarrow>
          (case calendar_body task_name start_time duration_minutes of
             Inl e \<Rightarrow> (False, [])
           | Inr event \<Rightarrow>
               (case events_insert svc event of
                  Inl e \<Rightarrow> (False, [InsertEvent event])
                | Inr r \<Rightarrow> (True, [InsertEvent event]))))"

text \<open>
  The dictionary that \<open>add_task\<close> returns: the three flags, or, from the handler of
  its \<open>try\<close>, \<open>"success": False\<close> with a message and without the other two keys.
\<close>

datatype add_result =
    AddResult (success: bool) (things: bool) (calendar: bool)
  | AddFailure message

definition add_task ::
  "api \<Rightarrow> (ustr \<Rightarrow> pyexn + datetime) \<Rightarrow> (ustr \<Rightarrow> bool) \<Rightarrow> ustr \<Rightarrow> ustr \<Rightarrow> pyval
     \<Rightarrow> add_result \<times> api \<times> request list" where
  "add_task self fromisoformat osascript task_name time_iso duration_minutes =
     (case exn_bind (fromisoformat time_iso) (\<lambda>start_time.
           exn_bind (if truthy duration_minutes then py_int_val duration_minutes else Inr 60)
             (\<lambda>duration. Inr (start_time, duration))) of
        Inl e \<Rightarrow> (AddFailure (StrOf e), self, [])
      | Inr (start_time, duration) \<Rightarrow>
          (case add_to_things osascript task_name start_time of (things_ok, reqs1) \<Rightarrow>
           case add_to_calendar self task_name start_time duration of (calendar_ok, reqs2) \<Rightarrow>
             (AddResult (things_ok \<and> calendar_ok) things_ok calendar_ok, self, reqs1 @ reqs2)))"

section \<open>Task submission in the page (JavaScript: addTask)\<close>

text \<open>\<open>String.prototype.trim\<close>: white space and line terminators of the language.\<close>

definition js_space :: "nat \<Rightarrow> bool" where
  "js_space c = ((9 \<le> c \<and> c \<le> 13) \<or> c = 32 \<or> c = 160 \<or> c = 5760
                 \<or> (8192 \<le> c \<and> c \<le> 8202) \<or> c = 8232 \<or> c = 8233 \<or> c = 8239
                 \<or> c = 8287 \<or> c = 12288 \<or> c = 65279)"

definition js_trim :: "ustr \<Rightarrow> ustr" where
  "js_trim s = rev (dropWhile js_space (rev (dropWhile js_space s)))"

text \<open>
  The draft: the three input fields, the line under the time field, and the variable
  \<open>parsedTimeISO\<close> (\<open>None\<close> for \<open>null\<close>).
\<close>

record draft =
  taskName :: ustr
  taskTime :: ustr
  taskDuration :: ustr
  parsedTime :: ustr
  parsedTimeISO :: "ustr option"

text \<open>What \<open>addTask\<close> shows and does: the toast with its error flag, and whether it
  refreshes the calendar.\<close>

record submit_outcome =
  draft_after :: draft
  toast :: ustr
  toast_is_error :: bool
  refreshed :: bool
  api_after :: api
  requests :: "request list"

definition failure_toast :: "add_result \<Rightarrow> ustr" where
  "failure_toast result =
     ascii ''Failed to add task''
     @ (case result of
          AddResult s t c \<Rightarrow> (if \<not> t then ascii '' (Things)'' else [])
                              @ (if \<not> c then ascii '' (Calendar)'' else [])
        | AddFailure m \<Rightarrow> ascii '' (Things)'' @ ascii '' (Calendar)'')"

definition result_success :: "add_result \<Rightarrow> bool" where
  "result_success result = (case result of AddResult s t c \<Rightarrow> s | AddFailure m \<Rightarrow> False)"

text \<open>\<open>value.trim() || '60'\<close> of the duration field.\<close>

definition duration_text :: "draft \<Rightarrow> ustr" where
  "duration_text form =
     (if js_trim (taskDuration form) = [] then ascii ''60'' else js_trim (taskDuration form))"

text \<open>
  \<open>addTask\<close>, with the call of \<open>add_task\<close> across the bridge. The requests are those of
  \<open>add_task\<close>; the refresh that follows a success makes its own.
\<close>

definition addTask ::
  "api \<Rightarrow> (ustr \<Rightarrow> pyexn + datetime) \<Rightarrow> (ustr \<Rightarrow> bool) \<Rightarrow> draft \<Rightarrow> submit_outcome" where
  "addTask self fromisoformat osascript form =
     (let name = js_trim (taskName form);
          duration = duration_text form
      in if name = [] then
           \<lparr>draft_after = form, toast = ascii ''Please enter a task name'',
            toast_is_error = True, refreshed = False, api_after = self, requests = []\<rparr>
         else
           (case parsedTimeISO form of
              None \<Rightarrow>
                \<lparr>draft_after = form, toast = ascii ''Please enter a valid time'',
                 toast_is_error = True, refreshed = False, api_after = self, requests = []\<rparr>
            | Some time_iso \<Rightarrow>
                if time_iso = [] then
                  \<lparr>draft_after = form, toast = ascii ''Please enter a valid time'',
                   toast_is_error = True, refreshed = False, api_after = self, requests = []\<rparr>
                else
                  (case add_task self fromisoformat osascript name time_iso (PStr duration) of
                     (result, self', reqs) \<Rightarrow>
                       if result_success result then
                         \<lparr>draft_after = \<lparr>taskName = [], taskTime = [], taskDuration = [],
                                          parsedTime = [], parsedTimeISO = None\<rparr>,
                          toast = ascii ''Task added successfully'', toast_is_error = False,
                          refreshed = True, api_after = self', requests = reqs\<rparr>
                       else
                         \<lparr>draft_after = form, toast = failure_toast result,
                          toast_is_error = True, refreshed = False, api_after = self',
                          requests = reqs\<rparr>)))"

subsection \<open>Example inputs of the gateway and of task submission\<close>

text \<open>
  A stand-in for \<open>datetime.fromisoformat\<close> in the examples: it knows one timestamp.
\<close>

definition fromiso_demo :: "ustr \<Rightarrow> pyexn + datetime" where
  "fromiso_demo s =
     (if s = ascii ''2026-11-05T13:00:00'' then Inr (naive_at 2026 11 5 13 0)
      else Inl ValueError)"

text \<open>An event as the remote calendar stores it, and a service that answers every request.\<close>

definition lunch_event :: "(ustr \<times> pyval) list" where
  "lunch_event =
     [(ascii ''id'', PStr (ascii ''e1'')),
      (ascii ''summary'', PStr (ascii ''Lunch'')),
      (ascii ''start'', PDict [(ascii ''dateTime'', PStr (ascii ''2026-11-04T12:00:00-08:00''))]),
      (ascii ''end'', PDict [(ascii ''dateTime'', PStr (ascii ''2026-11-04T13:00:00-08:00''))]),
      (ascii ''description'', PStr (ascii ''with Sam''))]"

definition svc_demo :: service where
  "svc_demo =
     \<lparr>events_list = (\<lambda>tmin tmax. Inr (PDict [(ascii ''items'', PList [PDict lunch_event])])),
      events_get = (\<lambda>event_id. if event_id = ascii ''e1'' then Inr (PDict lunch_event)
                                else Inl HttpError),
      events_update = (\<lambda>event_id body. Inr body),
      events_delete = (\<lambda>event_id. Inr PNone),
      events_insert = (\<lambda>body. Inr body)\<rparr>"

definition api_online :: api where
  "api_online = \<lparr>service = Some svc_demo\<rparr>"

definition draft_bad_duration :: draft where
  "draft_bad_duration =
     \<lparr>taskName = ascii ''Write report'', taskTime = ascii ''tomorrow 1pm'',
      taskDuration = ascii ''abc'', parsedTime = ascii ''Thursday, November 05 at 01:00 PM'',
      parsedTimeISO = Some (ascii ''2026-11-05T13:00:00'')\<rparr>"

definition cleared_draft :: draft where
  "cleared_draft =
     \<lparr>taskName = [], taskTime = [], taskDuration = [], parsedTime = [], parsedTimeISO = None\<rparr>"

section \<open>Properties of the week view\<close>

lemma length_push_at: "length (push_at bs i x) = length bs"
  by (simp add: push_at_def)

lemma nth_push_at:
  "i < length bs \<Longrightarrow> push_at bs i x ! d = (if d = i then bs ! i @ [x] else bs ! d)"
  by (simp add: push_at_def nth_list_update)

lemma group_step_length:
  "length (fst (group_step ws now (a, b) e)) = length a
   \<and> length (snd (group_step ws now (a, b) e)) = length b"
  by (simp add: group_step_def Let_def length_push_at)

lemma group_step_timed:
  assumes "length a = 7" "d < 7"
  shows "map p_event (fst (group_step ws now (a, b) e) ! d) =
           map p_event (a ! d)
           @ (if \<not> isAllDay e \<and> dayIdx_of (ev_start e) ws = int d then [e] else [])"
  using assms by (auto simp: group_step_def Let_def nth_push_at)

lemma group_step_allday:
  assumes "length b = 7" "d < 7"
  shows "map p_event (snd (group_step ws now (a, b) e) ! d) =
           map p_event (b ! d)
           @ (if isAllDay e \<and> dayIdx_of (ev_start e) ws = int d then [e] else [])"
  using assms by (auto simp: group_step_def Let_def nth_push_at)

lemma group_fold_timed:
  "length a = 7 \<Longrightarrow> length b = 7 \<Longrightarrow> d < 7 \<Longrightarrow>
   map p_event (fst (foldl (group_step ws now) (a, b) es) ! d) =
     map p_event (a ! d)
     @ filter (\<lambda>e. \<not> isAllDay e \<and> dayIdx_of (ev_start e) ws = int d) es"
proof (induction es arbitrary: a b)
  case Nil
  then show ?case by simp
next
  case (Cons e es)
  obtain a' b' where st: "group_step ws now (a, b) e = (a', b')"
    by (cases "group_step ws now (a, b) e")
  have len: "length a' = 7" "length b' = 7"
    using group_step_length [of ws now a b e] Cons.prems st by simp_all
  have hd: "map p_event (a' ! d) =
              map p_event (a ! d)
              @ (if \<not> isAllDay e \<and> dayIdx_of (ev_start e) ws = int d then [e] else [])"
    using group_step_timed [OF Cons.prems(1) Cons.prems(3), of ws now b e] st by simp
  show ?case
    using Cons.IH [OF len Cons.prems(3)] hd st by simp
qed

lemma group_fold_allday:
  "length a = 7 \<Longrightarrow> length b = 7 \<Longrightarrow> d < 7 \<Longrightarrow>
   map p_event (snd (foldl (group_step ws now) (a, b) es) ! d) =
     map p_event (b ! d)
     @ filter (\<lambda>e. isAllDay e \<and> dayIdx_of (ev_start e) ws = int d) es"
proof (induction es arbitrary: a b)
  case Nil
  then show ?case by simp
next
  case (Cons e es)
  obtain a' b' where st: "group_step ws now (a, b) e = (a', b')"
    by (cases "group_step ws now (a, b) e")
  have len: "length a' = 7" "length b' = 7"
    using group_step_length [of ws now a b e] Cons.prems st by simp_all
  have hd: "map p_event (b' ! d) =
              map p_event (b ! d)
              @ (if isAllDay e \<and> dayIdx_of (ev_start e) ws = int d then [e] else [])"
    using group_step_allday [OF Cons.prems(2) Cons.prems(3), of ws now a e] st by simp
  show ?case
    using Cons.IH [OF len Cons.prems(3)] hd st by simp
qed

lemma group_fold_length:
  "length (fst (foldl (group_step ws now) (a, b) es)) = length a
   \<and> length (snd (foldl (group_step ws now) (a, b) es)) = length b"
proof (induction es arbitrary: a b)
  case Nil
  then show ?case by simp
next
  case (Cons e es)
  obtain a' b' where st: "group_step ws now (a, b) e = (a', b')"
    by (cases "group_step ws now (a, b) e")
  then show ?case
    using Cons.IH [of a' b'] group_step_length [of ws now a b e] by simp
qed

lemma set_push_at:
  "i < length bs \<Longrightarrow> bl \<in> set (push_at bs i x) \<Longrightarrow> bl \<in> set bs \<or> bl = bs ! i @ [x]"
  unfolding push_at_def using set_update_subset_insert [of bs i "bs ! i @ [x]"] by auto

lemma colour_ok_push:
  "colour_ok now bs \<Longrightarrow> i < length bs \<Longrightarrow>
   colorClass x = (if ev_end (p_event x) < now then ''event-completed'' else ''event-normal'') \<Longrightarrow>
   colour_ok now (push_at bs i x)"
  unfolding colour_ok_def
proof (intro ballI)
  fix bl p
  assume ok: "\<forall>bl\<in>set bs. \<forall>p\<in>set bl.
        colorClass p = (if ev_end (p_event p) < now then ''event-completed'' else ''event-normal'')"
    and i: "i < length bs"
    and x: "colorClass x = (if ev_end (p_event x) < now then ''event-completed'' else ''event-normal'')"
    and bl: "bl \<in> set (push_at bs i x)" and p: "p \<in> set bl"
  from set_push_at [OF i bl] consider "bl \<in> set bs" | "bl = bs ! i @ [x]" by blast
  then show "colorClass p = (if ev_end (p_event p) < now then ''event-completed'' else ''event-normal'')"
  proof cases
    case 1
    with ok p show ?thesis by blast
  next
    case 2
    with p have "p \<in> set (bs ! i) \<or> p = x" by auto
    moreover have "bs ! i \<in> set bs" using i by simp
    ultimately show ?thesis using ok x by blast
  qed
qed

lemma group_step_colour:
  assumes "colour_ok now a" "colour_ok now b" "length a = 7" "length b = 7"
  shows "colour_ok now (fst (group_step ws now (a, b) e))
         \<and> colour_ok now (snd (group_step ws now (a, b) e))"
  using assms by (auto simp: group_step_def Let_def intro!: colour_ok_push)

lemma group_fold_colour:
  "colour_ok now a \<Longrightarrow> colour_ok now b \<Longrightarrow> length a = 7 \<Longrightarrow> length b = 7 \<Longrightarrow>
   colour_ok now (fst (foldl (group_step ws now) (a, b) es))
   \<and> colour_ok now (snd (foldl (group_step ws now) (a, b) es))"
proof (induction es arbitrary: a b)
  case Nil
  then show ?case by simp
next
  case (Cons e es)
  obtain a' b' where st: "group_step ws now (a, b) e = (a', b')"
    by (cases "group_step ws now (a, b) e")
  have "colour_ok now a'" "colour_ok now b'"
    using group_step_colour [OF Cons.prems, of ws e] st by simp_all
  moreover have "length a' = 7" "length b' = 7"
    using group_step_length [of ws now a b e] Cons.prems st by simp_all
  ultimately show ?case using Cons.IH [of a' b'] st by simp
qed

lemma colour_ok_replicate: "colour_ok now (replicate n [])"
  by (simp add: colour_ok_def)

text \<open>
  Claim C7. \<open>renderCalendar\<close> puts an event into the day bucket
  \<open>floor((start - weekStart) / 1 day)\<close>: bucket \<open>d\<close> of the timed (all-day) events
  holds exactly the timed (all-day) events with that index, in their order, so an event
  whose index is outside 0..6 is in no bucket. An event starting at the anchor has
  index 0, one starting 7 x 24 h later has index 7.
\<close>

theorem week_buckets:
  "length (eventsByDay (renderCalendar events ws off clk)) = 7
   \<and> length (allDayByDay (renderCalendar events ws off clk)) = 7
   \<and> (\<forall>d<7.
        map p_event (eventsByDay (renderCalendar events ws off clk) ! d) =
          filter (\<lambda>e. \<not> isAllDay e \<and> (ev_start e - ws) div (24 * 60 * 60 * 1000) = int d) events
      \<and> map p_event (allDayByDay (renderCalendar events ws off clk) ! d) =
          filter (\<lambda>e. isAllDay e \<and> (ev_start e - ws) div (24 * 60 * 60 * 1000) = int d) events)
   \<and> dayIdx_of ws ws = 0
   \<and> dayIdx_of (ws + 7 * (24 * 60 * 60 * 1000)) ws = 7"
proof -
  have len: "length (replicate 7 ([]::placed list)) = 7" by simp
  have a: "length (eventsByDay (renderCalendar events ws off clk)) = 7
     \<and> length (allDayByDay (renderCalendar events ws off clk)) = 7"
    using group_fold_length [of ws "render_now clk" "replicate 7 []" "replicate 7 []" events]
    by (simp add: renderCalendar_def groupByDay_def Let_def)
  have b: "\<forall>d<7.
        map p_event (eventsByDay (renderCalendar events ws off clk) ! d) =
          filter (\<lambda>e. \<not> isAllDay e \<and> (ev_start e - ws) div (24 * 60 * 60 * 1000) = int d) events
      \<and> map p_event (allDayByDay (renderCalendar events ws off clk) ! d) =
          filter (\<lambda>e. isAllDay e \<and> (ev_start e - ws) div (24 * 60 * 60 * 1000) = int d) events"
  proof (intro allI impI)
    fix d :: nat assume d: "d < 7"
    show "map p_event (eventsByDay (renderCalendar events ws off clk) ! d) =
          filter (\<lambda>e. \<not> isAllDay e \<and> (ev_start e - ws) div (24 * 60 * 60 * 1000) = int d) events
      \<and> map p_event (allDayByDay (renderCalendar events ws off clk) ! d) =
          filter (\<lambda>e. isAllDay e \<and> (ev_start e - ws) div (24 * 60 * 60 * 1000) = int d) events"
      using group_fold_timed [OF len len d, of ws "render_now clk" events]
            group_fold_allday [OF len len d, of ws "render_now clk" events] d
      by (simp add: renderCalendar_def groupByDay_def Let_def dayIdx_of_def DAY_MS_def)
  qed
  have c: "dayIdx_of ws ws = 0 \<and> dayIdx_of (ws + 7 * (24 * 60 * 60 * 1000)) ws = 7"
    by (simp add: dayIdx_of_def DAY_MS_def)
  from a b c show ?thesis by blast
qed

theorem week_buckets_witness:
  "map (\<lambda>d. map p_event
          (eventsByDay (renderCalendar [ev_anchor, ev_week_later] 1794182400000 1 clk_wed) ! d))
     [0, 1, 2, 3, 4, 5, 6]
   = [[ev_anchor], [], [], [], [], [], []]"
  using week_buckets [of "[ev_anchor, ev_week_later]" 1794182400000 1 clk_wed]
  by (simp add: ev_anchor_def ev_week_later_def)

lemma set_todayEvents: "set (todayEvents es ws i) \<subseteq> set es"
  by (auto simp: todayEvents_def)

text \<open>
  Claim C4, as amended. The completed flag is the strict comparison \<open>end < now\<close>, in the
  grid (the colour class of every entry) and in the sidebar (the flag and the check
  mark): an event is marked completed exactly when its end is strictly before now, so an
  event whose end equals now is not marked completed. The sidebar lists the timed
  events of today's index; the status of an entry is completed when \<open>end < now\<close>, in
  progress when \<open>start \<le> now \<le> end\<close>, upcoming otherwise, so an entry that ends exactly
  now and has started is in progress.
\<close>

theorem completed_flag_strict:
  "(\<forall>d<7. \<forall>p \<in> set (eventsByDay (renderCalendar events ws off clk) ! d)
               \<union> set (allDayByDay (renderCalendar events ws off clk) ! d).
       (colorClass p = ''event-completed'') = (ev_end (p_event p) < render_now clk)
     \<and> (colorClass p = ''event-normal'') = (\<not> ev_end (p_event p) < render_now clk))
   \<and> (\<forall>items. todaySchedule (renderCalendar events ws off clk) = Agenda items \<longrightarrow>
        (\<forall>it \<in> set items.
           s_completed it = (ev_end (s_event it) < sidebar_now clk)
         \<and> (s_status it = Completed) = (ev_end (s_event it) < sidebar_now clk)))
   \<and> (\<forall>items. todaySchedule (renderCalendar events ws off clk) = Agenda items \<longrightarrow>
        map s_event items = todayEvents events ws (todayIdx_of (render_getDay clk))
      \<and> (\<forall>it \<in> set items.
           s_status it =
             (if ev_end (s_event it) < sidebar_now clk then Completed
              else if ev_start (s_event it) \<le> sidebar_now clk
                      \<and> sidebar_now clk \<le> ev_end (s_event it) then InProgress
              else Upcoming)
         \<and> (ev_end (s_event it) = sidebar_now clk \<and> ev_start (s_event it) \<le> sidebar_now clk
              \<longrightarrow> \<not> s_completed it \<and> s_status it = InProgress)))
   \<and> ((todaySchedule (renderCalendar events ws off clk) = DayClear)
        = (todayEvents events ws (todayIdx_of (render_getDay clk)) = []))"
proof -
  let ?now = "render_now clk"
  let ?g = "foldl (group_step ws ?now) (replicate 7 [], replicate 7 []) events"
  have ok: "colour_ok ?now (fst ?g) \<and> colour_ok ?now (snd ?g)"
    by (rule group_fold_colour) (simp_all add: colour_ok_replicate)
  have len: "length (fst ?g) = 7 \<and> length (snd ?g) = 7"
    using group_fold_length [of ws ?now "replicate 7 []" "replicate 7 []" events] by simp
  have grid: "\<forall>d<7. \<forall>p \<in> set (eventsByDay (renderCalendar events ws off clk) ! d)
               \<union> set (allDayByDay (renderCalendar events ws off clk) ! d).
       (colorClass p = ''event-completed'') = (ev_end (p_event p) < render_now clk)
     \<and> (colorClass p = ''event-normal'') = (\<not> ev_end (p_event p) < render_now clk)"
  proof (intro allI impI ballI)
    fix d :: nat and p
    assume d: "d < 7"
      and p: "p \<in> set (eventsByDay (renderCalendar events ws off clk) ! d)
               \<union> set (allDayByDay (renderCalendar events ws off clk) ! d)"
    have "fst ?g ! d \<in> set (fst ?g)" "snd ?g ! d \<in> set (snd ?g)"
      using len d by simp_all
    moreover have "p \<in> set (fst ?g ! d) \<or> p \<in> set (snd ?g ! d)"
      using p by (simp add: renderCalendar_def groupByDay_def Let_def)
    ultimately have "colorClass p =
        (if ev_end (p_event p) < ?now then ''event-completed'' else ''event-normal'')"
      using ok unfolding colour_ok_def by blast
    then show "(colorClass p = ''event-completed'') = (ev_end (p_event p) < render_now clk)
     \<and> (colorClass p = ''event-normal'') = (\<not> ev_end (p_event p) < render_now clk)"
      by simp
  qed
  have side: "\<forall>items. todaySchedule (renderCalendar events ws off clk) = Agenda items \<longrightarrow>
        (\<forall>it \<in> set items.
           s_completed it = (ev_end (s_event it) < sidebar_now clk)
         \<and> (s_status it = Completed) = (ev_end (s_event it) < sidebar_now clk))"
    by (auto simp: renderCalendar_def updateTodaySchedule_def Let_def schedule_entry_def
             split: if_splits)
  have entries: "\<forall>items. todaySchedule (renderCalendar events ws off clk) = Agenda items \<longrightarrow>
        map s_event items = todayEvents events ws (todayIdx_of (render_getDay clk))
      \<and> (\<forall>it \<in> set items.
           s_status it =
             (if ev_end (s_event it) < sidebar_now clk then Completed
              else if ev_start (s_event it) \<le> sidebar_now clk
                      \<and> sidebar_now clk \<le> ev_end (s_event it) then InProgress
              else Upcoming)
         \<and> (ev_end (s_event it) = sidebar_now clk \<and> ev_start (s_event it) \<le> sidebar_now clk
              \<longrightarrow> \<not> s_completed it \<and> s_status it = InProgress))"
    by (auto simp: renderCalendar_def updateTodaySchedule_def Let_def schedule_entry_def
          comp_def split: if_splits)
  have clear: "(todaySchedule (renderCalendar events ws off clk) = DayClear)
        = (todayEvents events ws (todayIdx_of (render_getDay clk)) = [])"
    by (simp add: renderCalendar_def updateTodaySchedule_def Let_def)
  from grid side entries clear show ?thesis by blast
qed

theorem completed_flag_strict_witness:
  "map colorClass (eventsByDay (renderCalendar [ev_ends_now] 1793577600000 0 clk_at_end) ! 2)
     = [''event-normal'']
   \<and> todaySchedule (renderCalendar [ev_ends_now] 1793577600000 0 clk_at_end)
     = Agenda [\<lparr>s_event = ev_ends_now, s_completed = False, s_status = InProgress\<rparr>]"
proof -
  have b: "map p_event (eventsByDay (renderCalendar [ev_ends_now] 1793577600000 0 clk_at_end) ! 2)
           = [ev_ends_now]"
    by (simp add: renderCalendar_def groupByDay_def group_step_def dayIdx_of_def DAY_MS_def
          push_at_def ev_ends_now_def clk_at_end_def Let_def)
  then obtain p where p: "eventsByDay (renderCalendar [ev_ends_now] 1793577600000 0 clk_at_end) ! 2 = [p]"
    and pe: "p_event p = ev_ends_now" by auto
  note h = completed_flag_strict [of "[ev_ends_now]" 1793577600000 0 clk_at_end,
      THEN conjunct1, rule_format, of 2 p]
  have "(colorClass p = ''event-normal'') = (\<not> ev_end (p_event p) < render_now clk_at_end)"
    using h p by simp
  then have c: "colorClass p = ''event-normal''"
    using pe by (simp add: ev_ends_now_def clk_at_end_def)
  have s: "todaySchedule (renderCalendar [ev_ends_now] 1793577600000 0 clk_at_end)
     = Agenda [\<lparr>s_event = ev_ends_now, s_completed = False, s_status = InProgress\<rparr>]"
    by (simp add: renderCalendar_def updateTodaySchedule_def todayEvents_def todayIdx_of_def
          schedule_entry_def dayIdx_of_def DAY_MS_def ev_ends_now_def clk_at_end_def Let_def)
  from p c s show ?thesis by simp
qed

text \<open>
  Claim C4 as stated fails: the event below ends exactly at the reading of the clock, and
  it is placed with the colour class of an event that is not completed, and listed in
  the sidebar as in progress.
\<close>

theorem end_equals_now_not_completed:
  "ev_end ev_ends_now = render_now clk_at_end
   \<and> eventsByDay (renderCalendar [ev_ends_now] 1793577600000 0 clk_at_end) ! 2
     = [\<lparr>p_event = ev_ends_now, colorClass = ''event-normal''\<rparr>]
   \<and> ev_end ev_ends_now = sidebar_now clk_at_end
   \<and> todaySchedule (renderCalendar [ev_ends_now] 1793577600000 0 clk_at_end)
     = Agenda [\<lparr>s_event = ev_ends_now, s_completed = False, s_status = InProgress\<rparr>]"
  by (simp add: renderCalendar_def groupByDay_def group_step_def dayIdx_of_def DAY_MS_def
        push_at_def updateTodaySchedule_def todayEvents_def todayIdx_of_def
        schedule_entry_def ev_ends_now_def clk_at_end_def Let_def)

text \<open>
  Claim C1 at a failing input. The displayed week is the week after the one that
  contains now (a Wednesday, so \<open>todayIdx\<close> is 2); no column header is marked as today,
  yet the sidebar under the heading TODAY lists the event of the displayed week's
  Wednesday: the index of an event is taken against the displayed week's anchor and
  compared with the weekday of now, with no test that the displayed week is the current
  one.
\<close>

theorem sidebar_follows_displayed_week:
  "render_now clk_wed < 1794182400000
   \<and> sidebar_now clk_wed < 1794182400000
   \<and> todayHeader (renderCalendar [ev_next_wed] 1794182400000 1 clk_wed)
     = [False, False, False, False, False, False, False]
   \<and> todaySchedule (renderCalendar [ev_next_wed] 1794182400000 1 clk_wed)
     = Agenda [\<lparr>s_event = ev_next_wed, s_completed = False, s_status = Upcoming\<rparr>]"
  by (simp add: renderCalendar_def updateTodaySchedule_def todayEvents_def todayIdx_of_def
        schedule_entry_def dayIdx_of_def DAY_MS_def ev_next_wed_def clk_wed_def Let_def
        upt_rec)

section \<open>Properties of the time expression parser\<close>

lemmas rx_defs = range_match_def range_pattern_def ampm_pattern_def has_ampm_def ampm_def
  Plus_def LazyPlus_def Opt_def ichar_def sep_class_def dot_def is_space_def is_digit_def
  nd_ranges_def strip_def ascii_def

lemmas dt_defs = naive_at_def dt_le_def dt_sub_def replace_hour_def whole_minutes_def
  wall_micros_def toordinal_def days_before_year_def days_before_month_def
  days_before_table_def is_leap_def pad2_def pad4_def pad6_def strftime_date_def
  strftime_parsed_def isoformat_def fmt_A_def fmt_B_def fmt_I_def fmt_p_def weekday_def
  day_names_def month_names_def infer_period_def end_str_of_def standard_parse_def
  format_offset_def

lemma range_9am_11: "range_match (ascii ''9am - 11'') = Some (ascii ''9am'', ascii ''11'')"
  by (simp add: rx_defs)

lemma parse_9am_11: "parse_time dp_morning (ascii ''9am - 11'') =
   Inr (ParseSuccess (ascii ''Wednesday, November 04 at 09:00 AM'') (ascii ''2026-11-04T09:00:00'') (Some 120))"
  by (simp add: parse_time_def range_9am_11 dp_morning_def) (simp add: rx_defs dt_defs)

lemma parse_time_no_range:
  "range_match inp = None \<Longrightarrow> parse_time dp inp = Inr (standard_parse dp inp)"
  by (simp add: parse_time_def)

lemma parse_time_fallback:
  assumes "range_match inp = Some (sp, ep)"
    and "dp sp = None \<or> (\<exists>s. dp sp = Some s \<and> dp (end_str_of s ep) = None)"
  shows "parse_time dp inp = Inr (standard_parse dp inp)"
  using assms by (auto simp: parse_time_def)

lemma parse_time_range:
  assumes "range_match inp = Some (sp, ep)"
    and "dp sp = Some s"
    and "dp (end_str_of s ep) = Some e"
    and "utcoffset s = None" and "utcoffset e = None"
    and "wall_micros s < wall_micros e \<or> hour e < 12"
  shows "parse_time dp inp =
           Inr (ParseSuccess (strftime_parsed s) (isoformat s)
                  (Some (whole_minutes
                     (wall_micros (if wall_micros e \<le> wall_micros s
                                   then e\<lparr>hour := hour e + 12\<rparr> else e)
                      - wall_micros s))))"
  using assms
  by (auto simp: parse_time_def dt_le_def dt_sub_def replace_hour_def)

lemma wall_micros_add12:
  "wall_micros (e\<lparr>hour := hour e + 12\<rparr>) = wall_micros e + 12 * 3600000000"
  by (simp add: wall_micros_def toordinal_def algebra_simps)

text \<open>
  Claim C8. When no range is detected and the parse of the whole input yields nothing,
  \<open>parse_time\<close> returns the failure with the message "Could not parse time", which
  carries no rendering, timestamp or duration. No range is detected in "not a time".
\<close>

theorem parse_failure_no_partial:
  "(range_match inp = None \<and> dp inp = None \<longrightarrow>
      parse_time dp inp = Inr (ParseFailure (ascii ''Could not parse time'')))
   \<and> (dp (ascii ''not a time'') = None \<longrightarrow>
      parse_time dp (ascii ''not a time'') = Inr (ParseFailure (ascii ''Could not parse time'')))"
proof -
  have nr: "range_match (ascii ''not a time'') = None"
    by (simp add: rx_defs)
  have "range_match i = None \<and> dp i = None \<longrightarrow>
      parse_time dp i = Inr (ParseFailure (ascii ''Could not parse time''))" for i
    by (simp add: parse_time_no_range standard_parse_def)
  then show ?thesis using nr by blast
qed

theorem parse_failure_no_partial_witness:
  "parse_time (\<lambda>s. None) (ascii ''not a time'')
     = Inr (ParseFailure (ascii ''Could not parse time''))"
  using parse_failure_no_partial [of "ascii ''not a time''" "\<lambda>s. None"] by simp

text \<open>
  Claim C2 at a failing input. "9pm - 8": the start is 21:00, the end is read as 8pm of
  the same day, which is not after the start. The code does not add twelve hours to the
  end: it replaces the hour field by 20 + 12, and \<open>replace\<close> raises \<open>ValueError\<close>, which
  nothing in \<open>parse_time\<close> catches. There is no fallback to the single timestamp.
\<close>

theorem wrap_raises_on_evening_end:
  "range_match (ascii ''9pm - 8'') = Some (ascii ''9pm'', ascii ''8'')
   \<and> parse_time dp_evening (ascii ''9pm - 8'')
       = Inl ValueError"
proof -
  have m: "range_match (ascii ''9pm - 8'') = Some (ascii ''9pm'', ascii ''8'')"
    by (simp add: rx_defs)
  have "parse_time dp_evening (ascii ''9pm - 8'')
       = Inl ValueError"
    by (simp add: parse_time_def m dp_evening_def) (simp add: rx_defs dt_defs)
  with m show ?thesis by simp
qed

text \<open>
  Claim C3 at failing inputs. The separator of the pattern is the character class
  \<open>[-\<dots>to]+\<close>, not the alternatives hyphen, en-dash and "to": a lone "t" or "o" separates.
  In "at 5" the range is "a", separator "t", end "5"; in "Sept 5" it is "Sep", "t", "5".
\<close>

theorem range_detected_on_single_letter:
  "range_match (ascii ''at 5'') = Some (ascii ''a'', ascii ''5'')
   \<and> range_match (ascii ''Sept 5'') = Some (ascii ''Sep'', ascii ''5'')"
  by (simp add: rx_defs)

text \<open>
  Claim C5 at a failing input. "11pm - 1": the end has no period, the start is in the
  afternoon, so the parser asks for "1pm" of the start's date; 13:00 is not after 23:00,
  and the replacement of the hour by 13 + 12 raises \<open>ValueError\<close>: no duration is
  returned. (The same defect as in claim C2.)
\<close>

theorem inferred_pm_end_raises:
  "range_match (ascii ''11pm - 1'') = Some (ascii ''11pm'', ascii ''1'')
   \<and> end_str_of (naive_at 2026 11 4 23 0) (ascii ''1'') = ascii ''2026-11-04 1pm''
   \<and> parse_time dp_night (ascii ''11pm - 1'')
       = Inl ValueError"
proof -
  have m: "range_match (ascii ''11pm - 1'') = Some (ascii ''11pm'', ascii ''1'')"
    by (simp add: rx_defs)
  have s: "end_str_of (naive_at 2026 11 4 23 0) (ascii ''1'') = ascii ''2026-11-04 1pm''"
    by (simp add: rx_defs dt_defs)
  have "parse_time dp_night (ascii ''11pm - 1'')
       = Inl ValueError"
    by (simp add: parse_time_def m dp_night_def) (simp add: rx_defs dt_defs)
  with m s show ?thesis by simp
qed

lemmas add_defs = dt_add_def timedelta_def DAY_US_def MAXORDINAL_def ord2ymd_def
  days_in_month_table_def time_dict_def

section \<open>Properties of the gateway\<close>

text \<open>
  Claim C9. With no service (\<open>self.service\<close> is \<open>None\<close>), \<open>get_events\<close>,
  \<open>delete_event\<close> and \<open>move_event\<close> return the failure with the message
  "Not connected" (and, for \<open>get_events\<close>, no events), make no request and leave the
  state as it is.
\<close>

theorem not_connected_short_circuit:
  "get_events (self\<lparr>service := None\<rparr>) now week_offset
     = (EventsFailure [] (Text (ascii ''Not connected'')), self\<lparr>service := None\<rparr>, [])
   \<and> delete_event (self\<lparr>service := None\<rparr>) event_id
     = (OpFailure (Text (ascii ''Not connected'')), self\<lparr>service := None\<rparr>, [])
   \<and> move_event (self\<lparr>service := None\<rparr>) fromisoformat event_id new_start_iso duration_minutes
     = (OpFailure (Text (ascii ''Not connected'')), self\<lparr>service := None\<rparr>, [])"
  by (simp add: get_events_def delete_event_def move_event_def)

lemma map_of_dict_set: "map_of (dict_set d k v) = (map_of d)(k \<mapsto> v)"
  by (induction d k v rule: dict_set.induct) auto

lemma keys_dict_set: "set (map fst (dict_set d k v)) = insert k (set (map fst d))"
  by (induction d k v rule: dict_set.induct) auto

lemma store_item_Inr:
  "store_item x k v = Inr y \<Longrightarrow> \<exists>d. x = PDict d \<and> y = PDict (dict_set d k v)"
  by (cases x) auto

lemma moved_body_Inr:
  assumes "moved_body fromisoformat event new_start_iso duration_minutes = Inr body"
  shows "\<exists>ev new_start minutes new_end.
           event = PDict ev
         \<and> fromisoformat (filter (\<lambda>c. c \<noteq> 90) new_start_iso) = Inr new_start
         \<and> py_int_val duration_minutes = Inr minutes
         \<and> dt_add new_start (minutes * 60000000) = Inr new_end
         \<and> body = PDict (dict_set (dict_set ev (ascii ''start'') (time_dict new_start))
                            (ascii ''end'') (time_dict new_end))"
proof -
  from assms obtain new_start minutes td new_end event1 where
      a: "fromisoformat (filter (\<lambda>c. c \<noteq> 90) new_start_iso) = Inr new_start"
    and b: "py_int_val duration_minutes = Inr minutes"
    and c: "timedelta (minutes * 60000000) = Inr td"
    and d: "dt_add new_start td = Inr new_end"
    and e: "store_item event (ascii ''start'') (time_dict new_start) = Inr event1"
    and f: "store_item event1 (ascii ''end'') (time_dict new_end) = Inr body"
    by (auto simp: moved_body_def exn_bind_def split: sum.splits)
  from c have td: "td = minutes * 60000000"
    by (auto simp: timedelta_def split: if_splits)
  from store_item_Inr [OF e] obtain ev where
    ev: "event = PDict ev" "event1 = PDict (dict_set ev (ascii ''start'') (time_dict new_start))"
    by blast
  from store_item_Inr [OF f] ev have
    "body = PDict (dict_set (dict_set ev (ascii ''start'') (time_dict new_start))
                            (ascii ''end'') (time_dict new_end))"
    by auto
  with a b d td ev show ?thesis by blast
qed

subsection \<open>Date arithmetic\<close>

text \<open>
  The date that \<open>ord2ymd\<close> computes for a day number has that day number as its
  ordinal, so \<open>dt_add\<close> moves a \<open>datetime\<close> by exactly the microseconds added.
\<close>

lemma is_leap_nat:
  "0 \<le> y \<Longrightarrow> is_leap (nat y) = (y mod 4 = 0 \<and> (y mod 100 \<noteq> 0 \<or> y mod 400 = 0))"
proof -
  assume y: "0 \<le> y"
  have m: "int (nat y mod k) = y mod int k" for k
    using y by (simp add: zmod_int)
  have z: "(nat y mod k = 0) = (y mod int k = 0)" for k
    by (simp add: m [symmetric])
  have "(nat y mod 4 = 0) = (y mod 4 = 0)" "(nat y mod 100 = 0) = (y mod 100 = 0)"
       "(nat y mod 400 = 0) = (y mod 400 = 0)"
    using z [of 4] z [of 100] z [of 400] by simp_all
  then show ?thesis by (simp add: is_leap_def)
qed

lemma days_before_year_nat:
  "1 \<le> y \<Longrightarrow> days_before_year (nat y) =
     (y - 1) * 365 + (y - 1) div 4 - (y - 1) div 100 + (y - 1) div 400"
  by (simp add: days_before_year_def Let_def)

lemma days_before_month_nat:
  assumes "1 \<le> m" "m \<le> 12"
  shows "days_before_month y (nat m) =
     days_before_table ! nat (m - 1) + (if m > 2 \<and> is_leap y then 1 else 0)"
proof -
  have "(nat m - 1) mod 12 = nat (m - 1)"
    using assms by (simp add: nat_diff_distrib')
  moreover have "(2 < nat m) = (2 < m)" by linarith
  ultimately show ?thesis by (simp add: days_before_month_def)
qed

lemma small_nat_cases:
  fixes k :: nat
  assumes "k < 13"
  shows "k = 0 \<or> k = 1 \<or> k = 2 \<or> k = 3 \<or> k = 4 \<or> k = 5 \<or> k = 6 \<or> k = 7 \<or> k = 8
         \<or> k = 9 \<or> k = 10 \<or> k = 11 \<or> k = 12"
  using assms by (simp add: numeral_eq_Suc less_Suc_eq)

lemma month_part:
  fixes r :: int
  assumes r: "0 \<le> r" "r < 365"
    and pre: "preceding = days_before_table ! nat ((((r + 50) div 32) - 1) mod 12)
                          + (if (r + 50) div 32 > 2 \<and> L then 1 else 0)"
  shows "if preceding > r
         then 2 \<le> (r + 50) div 32 \<and> (r + 50) div 32 \<le> 12
              \<and> preceding
                   - (days_in_month_table ! nat (((r + 50) div 32 - 1 - 1) mod 12)
                      + (if (r + 50) div 32 - 1 = 2 \<and> L then 1 else 0))
                 = days_before_table ! nat ((r + 50) div 32 - 1 - 1)
                   + (if (r + 50) div 32 - 1 > 2 \<and> L then 1 else 0)
              \<and> days_before_table ! nat ((r + 50) div 32 - 1 - 1)
                   + (if (r + 50) div 32 - 1 > 2 \<and> L then 1 else 0) \<le> r
         else 1 \<le> (r + 50) div 32 \<and> (r + 50) div 32 \<le> 12
              \<and> preceding = days_before_table ! nat ((r + 50) div 32 - 1)
                             + (if (r + 50) div 32 > 2 \<and> L then 1 else 0)"
proof -
  define month where "month = (r + 50) div 32"
  have lo: "32 * month \<le> r + 50" and hi: "r + 50 < 32 * month + 32"
    unfolding month_def by presburger+
  have rng: "1 \<le> month" "month \<le> 12"
    using lo hi r by linarith+
  define k where "k = nat month"
  have k: "month = int k" "k < 13"
    using rng by (simp_all add: k_def)
  have cases: "k = 0 \<or> k = 1 \<or> k = 2 \<or> k = 3 \<or> k = 4 \<or> k = 5 \<or> k = 6 \<or> k = 7 \<or> k = 8
         \<or> k = 9 \<or> k = 10 \<or> k = 11 \<or> k = 12"
    by (rule small_nat_cases) (rule k(2))
  have "if preceding > r
         then 2 \<le> month \<and> month \<le> 12
              \<and> preceding
                   - (days_in_month_table ! nat ((month - 1 - 1) mod 12)
                      + (if month - 1 = 2 \<and> L then 1 else 0))
                 = days_before_table ! nat (month - 1 - 1)
                   + (if month - 1 > 2 \<and> L then 1 else 0)
              \<and> days_before_table ! nat (month - 1 - 1)
                   + (if month - 1 > 2 \<and> L then 1 else 0) \<le> r
         else 1 \<le> month \<and> month \<le> 12
              \<and> preceding = days_before_table ! nat (month - 1)
                             + (if month > 2 \<and> L then 1 else 0)"
    using cases lo hi r rng pre [folded month_def] unfolding k(1)
    by (elim disjE) (simp_all add: days_before_table_def days_in_month_table_def)
  then show ?thesis unfolding month_def .
qed

lemma leap_of_cycles:
  fixes a b c e :: int
  assumes "0 \<le> a" "0 \<le> b" "b \<le> 3" "0 \<le> c" "c \<le> 24" "0 \<le> e" "e \<le> 3"
  shows "is_leap (nat (400 * a + 100 * b + 4 * c + e + 1))
           = (e = 3 \<and> (c \<noteq> 24 \<or> b = 3))"
proof -
  let ?y = "400 * a + 100 * b + 4 * c + e + 1"
  have y0: "0 \<le> ?y" using assms by linarith
  have m4: "(?y mod 4 = 0) = (e = 3)"
  proof (cases "e = 3")
    case True
    have "?y mod 4 = 0"
      by (rule int_mod_pos_eq [where q = "100 * a + 25 * b + c + 1"]) (use True in simp_all)
    with True show ?thesis by simp
  next
    case False
    have "?y mod 4 = e + 1"
      by (rule int_mod_pos_eq [where q = "100 * a + 25 * b + c"]) (use False assms in simp_all)
    with False assms show ?thesis by simp
  qed
  have m100: "(?y mod 100 = 0) = (c = 24 \<and> e = 3)"
  proof (cases "c = 24 \<and> e = 3")
    case True
    have "?y mod 100 = 0"
      by (rule int_mod_pos_eq [where q = "4 * a + b + 1"]) (use True in simp_all)
    with True show ?thesis by simp
  next
    case False
    have lt: "4 * c + e + 1 < 100" using False assms by linarith
    have "?y mod 100 = 4 * c + e + 1"
      by (rule int_mod_pos_eq [where q = "4 * a + b"]) (use lt assms in simp_all)
    with False assms show ?thesis by simp
  qed
  have m400: "(?y mod 400 = 0) = (b = 3 \<and> c = 24 \<and> e = 3)"
  proof (cases "b = 3 \<and> c = 24 \<and> e = 3")
    case True
    have "?y mod 400 = 0"
      by (rule int_mod_pos_eq [where q = "a + 1"]) (use True in simp_all)
    with True show ?thesis by simp
  next
    case False
    have lt: "100 * b + 4 * c + e + 1 < 400" using False assms by linarith
    have "?y mod 400 = 100 * b + 4 * c + e + 1"
      by (rule int_mod_pos_eq [where q = a]) (use lt assms in simp_all)
    with False assms show ?thesis by simp
  qed
  show ?thesis
    unfolding is_leap_nat [OF y0] m4 m100 m400 by blast
qed

lemma year_days_of_cycles:
  fixes a b c e :: int
  assumes "0 \<le> a" "0 \<le> b" "b \<le> 3" "0 \<le> c" "c \<le> 24" "0 \<le> e" "e \<le> 3"
  shows "days_before_year (nat (400 * a + 100 * b + 4 * c + e + 1))
           = 146097 * a + 36524 * b + 1461 * c + 365 * e"
proof -
  let ?y1 = "400 * a + 100 * b + 4 * c + e"
  have d4: "?y1 div 4 = 100 * a + 25 * b + c"
    by (rule int_div_pos_eq [where r = e]) (use assms in simp_all)
  have d100: "?y1 div 100 = 4 * a + b"
    by (rule int_div_pos_eq [where r = "4 * c + e"]) (use assms in simp_all)
  have d400: "?y1 div 400 = a"
    by (rule int_div_pos_eq [where r = "100 * b + 4 * c + e"]) (use assms in simp_all)
  have "1 \<le> ?y1 + 1" using assms by linarith
  from days_before_year_nat [OF this] show ?thesis
    by (simp add: d4 d100 d400)
qed

lemma toordinal_ord2ymd:
  assumes n: "1 \<le> n"
  shows "case ord2ymd n of (y, m, d) \<Rightarrow>
           days_before_year y + days_before_month y m + int d = n"
proof -
  define a where "a = (n - 1) div 146097"
  define r1 where "r1 = (n - 1) mod 146097"
  define b where "b = r1 div 36524"
  define r2 where "r2 = r1 mod 36524"
  define c where "c = r2 div 1461"
  define r3 where "r3 = r2 mod 1461"
  define e where "e = r3 div 365"
  define r where "r = r3 mod 365"
  define Y where "Y = a * 400 + 1 + b * 100 + c * 4 + e"
  define L where "L = (e = 3 \<and> (c \<noteq> 24 \<or> b = 3))"
  define M where "M = (r + 50) div 32"
  define P where "P = days_before_table ! nat ((M - 1) mod 12) + (if M > 2 \<and> L then 1 else 0)"
  define P' where "P' = P - (days_in_month_table ! nat ((M - 1 - 1) mod 12)
                             + (if M - 1 = 2 \<and> L then 1 else 0))"
  note defs = P'_def P_def M_def L_def Y_def a_def r1_def b_def r2_def c_def r3_def e_def r_def
  let ?Y = "Y"
  let ?L = "L"
  let ?M = "M"
  let ?P = "P"
  let ?P' = "P'"
  have o: "ord2ymd n =
      (if e = 4 \<or> b = 4 then (nat (?Y - 1), 12, 31)
       else if ?P > r then (nat ?Y, nat (?M - 1), nat (r - ?P' + 1))
       else (nat ?Y, nat ?M, nat (r - ?P + 1)))"
    unfolding defs ord2ymd_def Let_def by (rule refl)
  have e1: "n - 1 = 146097 * a + r1" and e2: "r1 = 36524 * b + r2"
    and e3: "r2 = 1461 * c + r3" and e4: "r3 = 365 * e + r"
    by (simp_all add: a_def r1_def b_def r2_def c_def r3_def e_def r_def)
  have b1: "0 \<le> r1" "r1 < 146097" "0 \<le> r2" "r2 < 36524" "0 \<le> r3" "r3 < 1461"
           "0 \<le> r" "r < 365"
    by (simp_all add: r1_def r2_def r3_def r_def)
  have a0: "0 \<le> a" using n by (simp add: a_def pos_imp_zdiv_nonneg_iff)
  have b0: "0 \<le> b" using b1 by (simp add: b_def pos_imp_zdiv_nonneg_iff)
  have c0: "0 \<le> c" using b1 by (simp add: c_def pos_imp_zdiv_nonneg_iff)
  have e0: "0 \<le> e" using b1 by (simp add: e_def pos_imp_zdiv_nonneg_iff)
  have b4: "b \<le> 4" using e2 b1 by linarith
  have c24: "c \<le> 24" using e3 b1 by linarith
  have e4': "e \<le> 4" using e4 b1 by linarith
  have total: "n = 146097 * a + 36524 * b + 1461 * c + 365 * e + r + 1"
    using e1 e2 e3 e4 by linarith
  show ?thesis
  proof (cases "e = 4 \<or> b = 4")
    case True
    then have res: "ord2ymd n = (nat (?Y - 1), 12, 31)" by (simp add: o)
    show ?thesis
    proof (cases "b = 4")
      case True
      then have z: "r2 = 0" "c = 0" "r3 = 0" "e = 0" "r = 0"
        using e2 b1 e3 e4 c0 e0 by linarith+
      have y: "?Y - 1 = 400 * a + 100 * 3 + 4 * 24 + 3 + 1" using True z by (simp add: Y_def)
      have l: "is_leap (nat (?Y - 1))"
        unfolding y using leap_of_cycles [of a 3 24 3] a0 by simp
      have d: "days_before_year (nat (?Y - 1)) = 146097 * a + 36524 * 3 + 1461 * 24 + 365 * 3"
        unfolding y using year_days_of_cycles [of a 3 24 3] a0 by simp
      have "days_before_year (nat (Y - 1)) + days_before_month (nat (Y - 1)) 12 + int 31 = n"
        using total True z by (simp add: d l days_before_month_def days_before_table_def)
      then show ?thesis by (simp add: res)
    next
      case False
      with True have e: "e = 4" by simp
      then have z: "r = 0" using e4 b1 by linarith
      have c23: "c \<le> 23" using e3 e4 b1 e z by linarith
      have b3: "b \<le> 3" using False b4 by linarith
      have y': "?Y - 1 = 400 * a + 100 * b + 4 * c + 3 + 1" using e by (simp add: Y_def)
      have l: "is_leap (nat (?Y - 1))"
        unfolding y' using leap_of_cycles [of a b c 3] a0 b0 b3 c0 c23 by simp
      have d: "days_before_year (nat (?Y - 1)) = 146097 * a + 36524 * b + 1461 * c + 365 * 3"
        unfolding y' using year_days_of_cycles [of a b c 3] a0 b0 b3 c0 c23 by simp
      have "days_before_year (nat (Y - 1)) + days_before_month (nat (Y - 1)) 12 + int 31 = n"
        using total e z by (simp add: d l days_before_month_def days_before_table_def)
      then show ?thesis by (simp add: res)
    qed
  next
    case False
    then have b3: "b \<le> 3" and e3': "e \<le> 3" using b4 e4' by linarith+
    have y: "?Y = 400 * a + 100 * b + 4 * c + e + 1" by (simp add: Y_def)
    have l: "is_leap (nat ?Y) = ?L"
      unfolding y L_def by (rule leap_of_cycles) (use a0 b0 b3 c0 c24 e0 e3' in simp_all)
    have d: "days_before_year (nat ?Y) = 146097 * a + 36524 * b + 1461 * c + 365 * e"
      unfolding y by (rule year_days_of_cycles) (use a0 b0 b3 c0 c24 e0 e3' in simp_all)
    have mp: "if P > r
         then 2 \<le> M \<and> M \<le> 12
              \<and> P' = days_before_table ! nat (M - 1 - 1) + (if M - 1 > 2 \<and> L then 1 else 0)
              \<and> days_before_table ! nat (M - 1 - 1) + (if M - 1 > 2 \<and> L then 1 else 0) \<le> r
         else 1 \<le> M \<and> M \<le> 12
              \<and> P = days_before_table ! nat (M - 1) + (if M > 2 \<and> L then 1 else 0)"
      unfolding P'_def P_def M_def by (rule month_part [OF b1(7) b1(8) refl])
    show ?thesis
    proof (cases "?P > r")
      case True
      with False have res: "ord2ymd n = (nat ?Y, nat (?M - 1), nat (r - ?P' + 1))"
        by (simp add: o)
      from mp True have m: "2 \<le> ?M" "?M \<le> 12"
        and p: "?P' = days_before_table ! nat (?M - 1 - 1)
                      + (if ?M - 1 > 2 \<and> ?L then 1 else 0)"
        and le: "days_before_table ! nat (?M - 1 - 1)
                      + (if ?M - 1 > 2 \<and> ?L then 1 else 0) \<le> r"
        by simp_all
      have dm: "days_before_month (nat ?Y) (nat (?M - 1)) = ?P'"
        unfolding p using days_before_month_nat [of "?M - 1" "nat ?Y"] m l by simp
      have dd: "int (nat (r - ?P' + 1)) = r - ?P' + 1"
        using le unfolding p by simp
      show ?thesis
        unfolding res using total d dm dd by simp
    next
      case F: False
      with False have res: "ord2ymd n = (nat ?Y, nat ?M, nat (r - ?P + 1))"
        by (simp add: o)
      from mp F have m: "1 \<le> ?M" "?M \<le> 12"
        and p: "?P = days_before_table ! nat (?M - 1) + (if ?M > 2 \<and> ?L then 1 else 0)"
        by simp_all
      have dm: "days_before_month (nat ?Y) (nat ?M) = ?P"
        using days_before_month_nat [of ?M "nat ?Y"] m l p by simp
      have dd: "int (nat (r - ?P + 1)) = r - ?P + 1"
        using F by simp
      show ?thesis
        unfolding res using total d dm dd by simp
    qed
  qed
qed

lemma clock_split:
  fixes rest :: int
  shows "rest = rest div 3600000000 * 3600000000 + rest div 60000000 mod 60 * 60000000
                + rest div 1000000 mod 60 * 1000000 + rest mod 1000000"
proof -
  define q where "q = rest div 1000000"
  define x where "x = q div 60"
  have x1: "rest div 60000000 = x"
    using zdiv_zmult2_eq [of 60 rest 1000000] by (simp add: x_def q_def)
  have x2: "rest div 3600000000 = x div 60"
    using zdiv_zmult2_eq [of 60 rest 60000000] x1 by simp
  have a: "rest = q * 1000000 + rest mod 1000000" by (simp add: q_def)
  have b: "q = x * 60 + q mod 60" by (simp add: x_def)
  have c: "x = x div 60 * 60 + x mod 60" by simp
  show ?thesis
    unfolding x1 x2 q_def [symmetric] using a b c by linarith
qed

lemma dt_add_wall:
  assumes "dt_add d td = Inr d'"
  shows "wall_micros d' = wall_micros d + td \<and> utcoffset d' = utcoffset d"
proof -
  define total where "total = wall_micros d + td"
  define days where "days = total div DAY_US"
  define rest where "rest = total mod DAY_US"
  obtain y m dd where o: "ord2ymd days = (y, m, dd)"
    by (cases "ord2ymd days") auto
  from assms have rng: "0 < days" "days \<le> MAXORDINAL"
    and d': "d' = d\<lparr>year := y, month := m, day := dd,
                     hour := nat (rest div 3600000000),
                     minute := nat (rest div 60000000 mod 60),
                     second := nat (rest div 1000000 mod 60),
                     microsecond := nat (rest mod 1000000)\<rparr>"
    using o
    by (auto simp: dt_add_def Let_def total_def [symmetric] days_def [symmetric]
          rest_def [symmetric] split: if_splits)
  have ord: "days_before_year y + days_before_month y m + int dd = days"
    using toordinal_ord2ymd [of days] rng o by simp
  have r0: "0 \<le> rest" "rest < 86400000000"
    by (simp_all add: rest_def DAY_US_def)
  have nn: "0 \<le> rest div 3600000000" "0 \<le> rest div 60000000 mod 60"
           "0 \<le> rest div 1000000 mod 60" "0 \<le> rest mod 1000000"
    using r0 by (simp_all add: pos_imp_zdiv_nonneg_iff)
  have t: "total = days * 86400000000 + rest"
    by (simp add: days_def rest_def DAY_US_def)
  have "wall_micros d' =
          (((days * 24 + rest div 3600000000) * 60 + rest div 60000000 mod 60) * 60
            + rest div 1000000 mod 60) * 1000000 + rest mod 1000000"
    using nn ord by (simp add: d' wall_micros_def toordinal_def)
  also have "\<dots> = days * 86400000000 + rest"
  proof -
    define H where "H = rest div 3600000000"
    define Mi where "Mi = rest div 60000000 mod 60"
    define S where "S = rest div 1000000 mod 60"
    define U where "U = rest mod 1000000"
    have "rest = H * 3600000000 + Mi * 60000000 + S * 1000000 + U"
      unfolding H_def Mi_def S_def U_def by (rule clock_split)
    then have "(((days * 24 + H) * 60 + Mi) * 60 + S) * 1000000 + U
               = days * 86400000000 + rest"
      by (simp add: algebra_simps)
    then show ?thesis unfolding H_def Mi_def S_def U_def .
  qed
  finally have "wall_micros d' = wall_micros d + td"
    using t by (simp add: total_def)
  moreover have "utcoffset d' = utcoffset d" by (simp add: d')
  ultimately show ?thesis by simp
qed

lemma dt_add_clock:
  assumes "dt_add d td = Inr d'"
  shows "hour d' < 24 \<and> minute d' < 60 \<and> second d' < 60 \<and> microsecond d' < 1000000"
proof -
  define rest where "rest = (wall_micros d + td) mod DAY_US"
  have r0: "0 \<le> rest" "rest < 86400000000"
    by (simp_all add: rest_def DAY_US_def)
  have h: "rest div 3600000000 < 24"
    using r0 by linarith
  from assms have f: "hour d' = nat (rest div 3600000000)"
      "minute d' = nat (rest div 60000000 mod 60)"
      "second d' = nat (rest div 1000000 mod 60)"
      "microsecond d' = nat (rest mod 1000000)"
    by (auto simp: dt_add_def Let_def rest_def split: if_splits prod.splits)
  show ?thesis
    using h by (simp add: f nat_less_iff)
qed

text \<open>
  Claim C10. A successful \<open>move_event\<close> makes two requests: it fetches the event, and it
  writes back the event it fetched with its \<open>start\<close> and \<open>end\<close> assigned. The start
  written is the ISO form of the new start with the time zone of Los Angeles, the end
  written is the same for the new end, which lies the duration in minutes after the new
  start (the duration being the integer passed, or \<open>int\<close> of the value passed). Every
  other key has the value it had in the event fetched. The state is unchanged.
\<close>

theorem move_event_frame:
  assumes "move_event self fromisoformat event_id new_start_iso duration_minutes
             = (OpSuccess, self', reqs)"
  shows "\<exists>svc ev body new_start minutes new_end.
           service self = Some svc
         \<and> events_get svc event_id = Inr (PDict ev)
         \<and> fromisoformat (filter (\<lambda>c. c \<noteq> 90) new_start_iso) = Inr new_start
         \<and> py_int_val duration_minutes = Inr minutes
         \<and> (case duration_minutes of
               PInt n \<Rightarrow> minutes = n
             | PBool flag \<Rightarrow> minutes = (if flag then 1 else 0)
             | PStr s \<Rightarrow> py_int s = Inr minutes
             | PNone \<Rightarrow> False | PList xs \<Rightarrow> False | PDict d \<Rightarrow> False)
         \<and> dt_add new_start (minutes * 60000000) = Inr new_end
         \<and> wall_micros new_end = wall_micros new_start + minutes * 60000000
         \<and> utcoffset new_end = utcoffset new_start
         \<and> hour new_end < 24 \<and> minute new_end < 60 \<and> second new_end < 60
         \<and> microsecond new_end < 1000000
         \<and> reqs = [GetEvent event_id, UpdateEvent event_id (PDict body)]
         \<and> map_of body (ascii ''start'')
             = Some (PDict [(ascii ''dateTime'', PStr (isoformat new_start)),
                            (ascii ''timeZone'', PStr (ascii ''America/Los_Angeles''))])
         \<and> map_of body (ascii ''end'')
             = Some (PDict [(ascii ''dateTime'', PStr (isoformat new_end)),
                            (ascii ''timeZone'', PStr (ascii ''America/Los_Angeles''))])
         \<and> (\<forall>k. k \<noteq> ascii ''start'' \<and> k \<noteq> ascii ''end'' \<longrightarrow> map_of body k = map_of ev k)
         \<and> set (map fst body) = insert (ascii ''start'') (insert (ascii ''end'') (set (map fst ev)))
         \<and> self' = self"
proof -
  from assms obtain svc event body where
      svc: "service self = Some svc"
    and g: "events_get svc event_id = Inr event"
    and b: "moved_body fromisoformat event new_start_iso duration_minutes = Inr body"
    and r: "reqs = [GetEvent event_id, UpdateEvent event_id body]"
    and s: "self' = self"
    by (auto simp: move_event_def split: option.splits sum.splits)
  from moved_body_Inr [OF b] obtain ev new_start minutes new_end where
      ev: "event = PDict ev"
    and a: "fromisoformat (filter (\<lambda>c. c \<noteq> 90) new_start_iso) = Inr new_start"
    and m: "py_int_val duration_minutes = Inr minutes"
    and d: "dt_add new_start (minutes * 60000000) = Inr new_end"
    and body: "body = PDict (dict_set (dict_set ev (ascii ''start'') (time_dict new_start))
                            (ascii ''end'') (time_dict new_end))"
    by blast
  let ?b = "dict_set (dict_set ev (ascii ''start'') (time_dict new_start))
                            (ascii ''end'') (time_dict new_end)"
  have ne: "ascii ''start'' \<noteq> ascii ''end''" by (simp add: ascii_def)
  have 1: "map_of ?b (ascii ''start'')
             = Some (PDict [(ascii ''dateTime'', PStr (isoformat new_start)),
                            (ascii ''timeZone'', PStr (ascii ''America/Los_Angeles''))])"
    using ne by (simp add: map_of_dict_set time_dict_def)
  have 2: "map_of ?b (ascii ''end'')
             = Some (PDict [(ascii ''dateTime'', PStr (isoformat new_end)),
                            (ascii ''timeZone'', PStr (ascii ''America/Los_Angeles''))])"
    by (simp add: map_of_dict_set time_dict_def)
  have 3: "\<forall>k. k \<noteq> ascii ''start'' \<and> k \<noteq> ascii ''end'' \<longrightarrow> map_of ?b k = map_of ev k"
    by (simp add: map_of_dict_set)
  have 4: "set (map fst ?b) = insert (ascii ''start'') (insert (ascii ''end'') (set (map fst ev)))"
    by (simp only: keys_dict_set) blast
  have 5: "case duration_minutes of
               PInt n \<Rightarrow> minutes = n
             | PBool flag \<Rightarrow> minutes = (if flag then 1 else 0)
             | PStr s \<Rightarrow> py_int s = Inr minutes
             | PNone \<Rightarrow> False | PList xs \<Rightarrow> False | PDict d \<Rightarrow> False"
    using m by (cases duration_minutes) auto
  note w = dt_add_wall [OF d] and c = dt_add_clock [OF d]
  from svc g ev a m d r body s 1 2 3 4 5 w c show ?thesis by blast
qed

lemma wall_micros_demo: "wall_micros (naive_at 2026 11 5 13 0) = 63929566800000000"
  by (simp add: dt_defs)

lemma ordinal_demo: "ord2ymd 739925 = (2026, 11, 5)"
  by (simp add: ord2ymd_def days_before_table_def days_in_month_table_def Let_def)

lemma dt_add_demo: "dt_add (naive_at 2026 11 5 13 0) 5400000000 = Inr (naive_at 2026 11 5 14 30)"
  by (simp add: dt_add_def wall_micros_demo ordinal_demo DAY_US_def MAXORDINAL_def Let_def) (simp add: naive_at_def)

lemma isoformat_demo_start: "isoformat (naive_at 2026 11 5 13 0) = ascii ''2026-11-05T13:00:00''"
  by (simp add: dt_defs ascii_def)

lemma isoformat_demo_end: "isoformat (naive_at 2026 11 5 14 30) = ascii ''2026-11-05T14:30:00''"
  by (simp add: dt_defs ascii_def)

lemma strip_Z_demo: "filter (\<lambda>c. c \<noteq> 90) (ascii ''2026-11-05T13:00:00Z'') = ascii ''2026-11-05T13:00:00''"
  by (simp add: ascii_def)

lemma moved_body_demo: "moved_body fromiso_demo (PDict lunch_event) (ascii ''2026-11-05T13:00:00Z'') (PInt 90)
  = Inr (PDict [(ascii ''id'', PStr (ascii ''e1'')),
                   (ascii ''summary'', PStr (ascii ''Lunch'')),
                   (ascii ''start'', PDict [(ascii ''dateTime'', PStr (ascii ''2026-11-05T13:00:00'')),
                                           (ascii ''timeZone'', PStr (ascii ''America/Los_Angeles''))]),
                   (ascii ''end'', PDict [(ascii ''dateTime'', PStr (ascii ''2026-11-05T14:30:00'')),
                                         (ascii ''timeZone'', PStr (ascii ''America/Los_Angeles''))]),
                   (ascii ''description'', PStr (ascii ''with Sam''))])"
  by (simp add: moved_body_def exn_bind_def strip_Z_demo fromiso_demo_def timedelta_def DAY_US_def dt_add_demo
        time_dict_def isoformat_demo_start isoformat_demo_end lunch_event_def)
     (simp add: ascii_def)

lemma move_demo:
  "move_event api_online fromiso_demo (ascii ''e1'') (ascii ''2026-11-05T13:00:00Z'') (PInt 90)
     = (OpSuccess, api_online,
        [GetEvent (ascii ''e1''),
         UpdateEvent (ascii ''e1'')
           (PDict [(ascii ''id'', PStr (ascii ''e1'')),
                   (ascii ''summary'', PStr (ascii ''Lunch'')),
                   (ascii ''start'', PDict [(ascii ''dateTime'', PStr (ascii ''2026-11-05T13:00:00'')),
                                           (ascii ''timeZone'', PStr (ascii ''America/Los_Angeles''))]),
                   (ascii ''end'', PDict [(ascii ''dateTime'', PStr (ascii ''2026-11-05T14:30:00'')),
                                         (ascii ''timeZone'', PStr (ascii ''America/Los_Angeles''))]),
                   (ascii ''description'', PStr (ascii ''with Sam''))])])"
  by (simp add: move_event_def api_online_def svc_demo_def moved_body_demo)

theorem move_event_frame_witness:
  "move_event api_online fromiso_demo (ascii ''e1'') (ascii ''2026-11-05T13:00:00Z'') (PInt 90)
     = (OpSuccess, api_online,
        [GetEvent (ascii ''e1''),
         UpdateEvent (ascii ''e1'')
           (PDict [(ascii ''id'', PStr (ascii ''e1'')),
                   (ascii ''summary'', PStr (ascii ''Lunch'')),
                   (ascii ''start'', PDict [(ascii ''dateTime'', PStr (ascii ''2026-11-05T13:00:00'')),
                                           (ascii ''timeZone'', PStr (ascii ''America/Los_Angeles''))]),
                   (ascii ''end'', PDict [(ascii ''dateTime'', PStr (ascii ''2026-11-05T14:30:00'')),
                                         (ascii ''timeZone'', PStr (ascii ''America/Los_Angeles''))]),
                   (ascii ''description'', PStr (ascii ''with Sam''))])])
   \<and> (\<exists>body new_end.
         snd (snd (move_event api_online fromiso_demo (ascii ''e1'')
                     (ascii ''2026-11-05T13:00:00Z'') (PInt 90)))
           = [GetEvent (ascii ''e1''), UpdateEvent (ascii ''e1'') (PDict body)]
       \<and> wall_micros new_end = wall_micros (naive_at 2026 11 5 13 0) + 90 * 60000000
       \<and> new_end = naive_at 2026 11 5 14 30
       \<and> map_of body (ascii ''start'')
           = Some (PDict [(ascii ''dateTime'', PStr (ascii ''2026-11-05T13:00:00'')),
                          (ascii ''timeZone'', PStr (ascii ''America/Los_Angeles''))])
       \<and> map_of body (ascii ''end'')
           = Some (PDict [(ascii ''dateTime'', PStr (isoformat new_end)),
                          (ascii ''timeZone'', PStr (ascii ''America/Los_Angeles''))])
       \<and> isoformat new_end = ascii ''2026-11-05T14:30:00''
       \<and> map_of body (ascii ''id'') = Some (PStr (ascii ''e1''))
       \<and> map_of body (ascii ''summary'') = Some (PStr (ascii ''Lunch''))
       \<and> map_of body (ascii ''description'') = Some (PStr (ascii ''with Sam'')))"
proof -
  from move_event_frame [OF move_demo] obtain svc ev body new_start minutes new_end where
      svc: "service api_online = Some svc"
    and ev: "events_get svc (ascii ''e1'') = Inr (PDict ev)"
    and ns: "fromiso_demo (filter (\<lambda>c. c \<noteq> 90) (ascii ''2026-11-05T13:00:00Z'')) = Inr new_start"
    and mi: "case PInt 90 of
               PInt n \<Rightarrow> minutes = n
             | PBool flag \<Rightarrow> minutes = (if flag then 1 else 0)
             | PStr s \<Rightarrow> py_int s = Inr minutes
             | PNone \<Rightarrow> False | PList xs \<Rightarrow> False | PDict d \<Rightarrow> False"
    and ad: "dt_add new_start (minutes * 60000000) = Inr new_end"
    and wm: "wall_micros new_end = wall_micros new_start + minutes * 60000000"
    and reqs: "[GetEvent (ascii ''e1''),
         UpdateEvent (ascii ''e1'')
           (PDict [(ascii ''id'', PStr (ascii ''e1'')),
                   (ascii ''summary'', PStr (ascii ''Lunch'')),
                   (ascii ''start'', PDict [(ascii ''dateTime'', PStr (ascii ''2026-11-05T13:00:00'')),
                                           (ascii ''timeZone'', PStr (ascii ''America/Los_Angeles''))]),
                   (ascii ''end'', PDict [(ascii ''dateTime'', PStr (ascii ''2026-11-05T14:30:00'')),
                                         (ascii ''timeZone'', PStr (ascii ''America/Los_Angeles''))]),
                   (ascii ''description'', PStr (ascii ''with Sam''))])]
        = [GetEvent (ascii ''e1''), UpdateEvent (ascii ''e1'') (PDict body)]"
    and st: "map_of body (ascii ''start'')
             = Some (PDict [(ascii ''dateTime'', PStr (isoformat new_start)),
                            (ascii ''timeZone'', PStr (ascii ''America/Los_Angeles''))])"
    and en: "map_of body (ascii ''end'')
             = Some (PDict [(ascii ''dateTime'', PStr (isoformat new_end)),
                            (ascii ''timeZone'', PStr (ascii ''America/Los_Angeles''))])"
    and frame: "\<forall>k. k \<noteq> ascii ''start'' \<and> k \<noteq> ascii ''end'' \<longrightarrow> map_of body k = map_of ev k"
    by blast
  from mi have m90: "minutes = 90" by simp
  from ns have nst: "new_start = naive_at 2026 11 5 13 0"
    by (simp add: strip_Z_demo fromiso_demo_def)
  from ad have ne: "new_end = naive_at 2026 11 5 14 30"
    by (simp add: m90 nst dt_add_demo)
  from svc have "svc = svc_demo"
    by (simp add: api_online_def)
  then have "events_get svc (ascii ''e1'') = Inr (PDict lunch_event)"
    by (simp add: svc_demo_def)
  with ev have e: "ev = lunch_event"
    by simp
  have "map_of body (ascii ''id'') = map_of lunch_event (ascii ''id'')"
       "map_of body (ascii ''summary'') = map_of lunch_event (ascii ''summary'')"
       "map_of body (ascii ''description'') = map_of lunch_event (ascii ''description'')"
    using frame e by (simp_all add: ascii_def)
  then have keys: "map_of body (ascii ''id'') = Some (PStr (ascii ''e1''))
          \<and> map_of body (ascii ''summary'') = Some (PStr (ascii ''Lunch''))
          \<and> map_of body (ascii ''description'') = Some (PStr (ascii ''with Sam''))"
    by (simp add: lunch_event_def ascii_def)
  have rq: "snd (snd (move_event api_online fromiso_demo (ascii ''e1'')
                         (ascii ''2026-11-05T13:00:00Z'') (PInt 90)))
             = [GetEvent (ascii ''e1''), UpdateEvent (ascii ''e1'') (PDict body)]"
    using reqs by (simp add: move_demo)
  have st': "map_of body (ascii ''start'')
           = Some (PDict [(ascii ''dateTime'', PStr (ascii ''2026-11-05T13:00:00'')),
                          (ascii ''timeZone'', PStr (ascii ''America/Los_Angeles''))])"
    using st by (simp add: nst isoformat_demo_start)
  have wm': "wall_micros new_end = wall_micros (naive_at 2026 11 5 13 0) + 90 * 60000000"
    using wm by (simp add: m90 nst)
  have iso: "isoformat new_end = ascii ''2026-11-05T14:30:00''"
    by (simp add: ne isoformat_demo_end)
  from rq wm' ne st' en iso keys
  have "\<exists>body new_end.
         snd (snd (move_event api_online fromiso_demo (ascii ''e1'')
                     (ascii ''2026-11-05T13:00:00Z'') (PInt 90)))
           = [GetEvent (ascii ''e1''), UpdateEvent (ascii ''e1'') (PDict body)]
       \<and> wall_micros new_end = wall_micros (naive_at 2026 11 5 13 0) + 90 * 60000000
       \<and> new_end = naive_at 2026 11 5 14 30
       \<and> map_of body (ascii ''start'')
           = Some (PDict [(ascii ''dateTime'', PStr (ascii ''2026-11-05T13:00:00'')),
                          (ascii ''timeZone'', PStr (ascii ''America/Los_Angeles''))])
       \<and> map_of body (ascii ''end'')
           = Some (PDict [(ascii ''dateTime'', PStr (isoformat new_end)),
                          (ascii ''timeZone'', PStr (ascii ''America/Los_Angeles''))])
       \<and> isoformat new_end = ascii ''2026-11-05T14:30:00''
       \<and> map_of body (ascii ''id'') = Some (PStr (ascii ''e1''))
       \<and> map_of body (ascii ''summary'') = Some (PStr (ascii ''Lunch''))
       \<and> map_of body (ascii ''description'') = Some (PStr (ascii ''with Sam''))"
    by blast
  with move_demo show ?thesis by blast
qed

section \<open>Properties of task submission\<close>

lemma add_task_converted:
  assumes "fromisoformat time_iso = Inr start_time"
    and "(if truthy duration_minutes then py_int_val duration_minutes else Inr 60) = Inr d"
  shows "add_task self fromisoformat osascript task_name time_iso duration_minutes =
           (AddResult (osascript (things_script task_name start_time)
                       \<and> fst (add_to_calendar self task_name start_time d))
                      (osascript (things_script task_name start_time))
                      (fst (add_to_calendar self task_name start_time d)),
            self,
            RunOsascript (things_script task_name start_time)
            # snd (add_to_calendar self task_name start_time d))"
  using assms
  by (simp add: add_task_def exn_bind_def add_to_things_def Let_def split: prod.splits)

lemma add_task_not_converted:
  assumes "fromisoformat time_iso = Inl e
           \<or> (\<exists>st. fromisoformat time_iso = Inr st)
             \<and> (if truthy duration_minutes then py_int_val duration_minutes else Inr 60) = Inl e"
  shows "add_task self fromisoformat osascript task_name time_iso duration_minutes =
           (AddFailure (StrOf e), self, [])"
  using assms by (auto simp: add_task_def exn_bind_def)

lemma add_to_calendar_connected:
  assumes "service self = Some svc"
    and "calendar_body task_name start_time d = Inr body"
  shows "add_to_calendar self task_name start_time d =
           (\<not> isl (events_insert svc body), [InsertEvent body])"
  using assms by (auto simp: add_to_calendar_def split: sum.splits)

lemma addTask_submitted:
  assumes "js_trim (taskName form) \<noteq> []" and "parsedTimeISO form = Some time_iso"
    and "time_iso \<noteq> []"
  shows "draft_after (addTask self fromisoformat osascript form) =
           (if result_success (fst (add_task self fromisoformat osascript
                                      (js_trim (taskName form)) time_iso
                                      (PStr (duration_text form))))
            then cleared_draft else form)"
  using assms by (simp add: addTask_def Let_def cleared_draft_def split: prod.splits)

text \<open>
  Claim C6, as amended. When the ISO time and the duration text convert, \<open>add_task\<close>
  runs the Things script and \<open>add_to_calendar\<close> with the same arguments whatever the
  other returns, reports the two outcomes separately and their conjunction as the
  success; connected and with an end time in range, \<open>add_to_calendar\<close> makes the insert
  request. When one of the two does not convert, neither is attempted and the result is
  the failure with that exception's message. A submitted draft is cleared when the
  result is a success and kept as it is otherwise.
\<close>

theorem add_task_both_attempted:
  "(fromisoformat time_iso = Inr start_time
    \<and> (if truthy duration_minutes then py_int_val duration_minutes else Inr 60) = Inr d \<longrightarrow>
      add_task self fromisoformat osascript task_name time_iso duration_minutes =
        (AddResult (osascript (things_script task_name start_time)
                    \<and> fst (add_to_calendar self task_name start_time d))
                   (osascript (things_script task_name start_time))
                   (fst (add_to_calendar self task_name start_time d)),
         self,
         RunOsascript (things_script task_name start_time)
         # snd (add_to_calendar self task_name start_time d)))
   \<and> (service self = Some svc \<and> calendar_body task_name start_time d = Inr body \<longrightarrow>
        add_to_calendar self task_name start_time d =
          (\<not> isl (events_insert svc body), [InsertEvent body]))
   \<and> (fromisoformat time_iso = Inl e
        \<or> (\<exists>st. fromisoformat time_iso = Inr st)
          \<and> (if truthy duration_minutes then py_int_val duration_minutes else Inr 60) = Inl e \<longrightarrow>
        add_task self fromisoformat osascript task_name time_iso duration_minutes =
          (AddFailure (StrOf e), self, []))
   \<and> (js_trim (taskName form) \<noteq> [] \<and> parsedTimeISO form = Some time_text \<and> time_text \<noteq> [] \<longrightarrow>
        draft_after (addTask self fromisoformat osascript form) =
          (if result_success (fst (add_task self fromisoformat osascript
                                     (js_trim (taskName form)) time_text (PStr (duration_text form))))
           then cleared_draft else form))"
  using add_task_converted [of fromisoformat time_iso start_time duration_minutes d self
          osascript task_name]
        add_to_calendar_connected [of self svc task_name start_time d body]
        add_task_not_converted [of fromisoformat time_iso e duration_minutes self osascript
          task_name]
        addTask_submitted [of form time_text self fromisoformat osascript]
  by blast

lemma py_int_90: "py_int (ascii ''90'') = Inr 90"
  by (simp add: py_int_def ascii_def int_space_def is_space_def is_digit_def digit_value_def)

lemma py_int_abc: "py_int (ascii ''abc'') = Inl ValueError"
  by (simp add: py_int_def ascii_def int_space_def is_space_def is_digit_def nd_ranges_def)

lemma calendar_body_demo:
  "calendar_body (ascii ''Write report'') (naive_at 2026 11 5 13 0) 90 =
     Inr (PDict [(ascii ''summary'', PStr (ascii ''Write report'')),
                 (ascii ''start'', PDict [(ascii ''dateTime'', PStr (ascii ''2026-11-05T13:00:00'')),
                                         (ascii ''timeZone'', PStr (ascii ''America/Los_Angeles''))]),
                 (ascii ''end'', PDict [(ascii ''dateTime'', PStr (ascii ''2026-11-05T14:30:00'')),
                                       (ascii ''timeZone'', PStr (ascii ''America/Los_Angeles''))])])"
  by (simp add: calendar_body_def exn_bind_def timedelta_def DAY_US_def dt_add_demo
        time_dict_def isoformat_demo_start isoformat_demo_end)

theorem add_task_both_attempted_witness:
  "add_task api_online fromiso_demo (\<lambda>script. False) (ascii ''Write report'')
     (ascii ''2026-11-05T13:00:00'') (PStr (ascii ''90''))
   = (AddResult False False True, api_online,
      [RunOsascript (things_script (ascii ''Write report'') (naive_at 2026 11 5 13 0)),
       InsertEvent
         (PDict [(ascii ''summary'', PStr (ascii ''Write report'')),
                 (ascii ''start'', PDict [(ascii ''dateTime'', PStr (ascii ''2026-11-05T13:00:00'')),
                                         (ascii ''timeZone'', PStr (ascii ''America/Los_Angeles''))]),
                 (ascii ''end'', PDict [(ascii ''dateTime'', PStr (ascii ''2026-11-05T14:30:00'')),
                                       (ascii ''timeZone'', PStr (ascii ''America/Los_Angeles''))])])])"
proof -
  have a: "fromiso_demo (ascii ''2026-11-05T13:00:00'') = Inr (naive_at 2026 11 5 13 0)"
    by (simp add: fromiso_demo_def)
  have b: "(if truthy (PStr (ascii ''90'')) then py_int_val (PStr (ascii ''90'')) else Inr 60)
           = Inr 90"
    by (simp add: py_int_90) (simp add: ascii_def)
  have c: "service api_online = Some svc_demo"
    by (simp add: api_online_def)
  note th = add_task_both_attempted [of fromiso_demo "ascii ''2026-11-05T13:00:00''"
      "naive_at 2026 11 5 13 0" "PStr (ascii ''90'')" 90 api_online "\<lambda>script. False"
      "ascii ''Write report''" svc_demo]
  from th a b have 1:
    "add_task api_online fromiso_demo (\<lambda>script. False) (ascii ''Write report'')
       (ascii ''2026-11-05T13:00:00'') (PStr (ascii ''90''))
     = (AddResult (False \<and> fst (add_to_calendar api_online (ascii ''Write report'')
                                   (naive_at 2026 11 5 13 0) 90))
          False
          (fst (add_to_calendar api_online (ascii ''Write report'') (naive_at 2026 11 5 13 0) 90)),
        api_online,
        RunOsascript (things_script (ascii ''Write report'') (naive_at 2026 11 5 13 0))
        # snd (add_to_calendar api_online (ascii ''Write report'') (naive_at 2026 11 5 13 0) 90))"
    by blast
  from th c calendar_body_demo have 2:
    "add_to_calendar api_online (ascii ''Write report'') (naive_at 2026 11 5 13 0) 90
     = (\<not> isl (events_insert svc_demo
          (PDict [(ascii ''summary'', PStr (ascii ''Write report'')),
                 (ascii ''start'', PDict [(ascii ''dateTime'', PStr (ascii ''2026-11-05T13:00:00'')),
                                         (ascii ''timeZone'', PStr (ascii ''America/Los_Angeles''))]),
                 (ascii ''end'', PDict [(ascii ''dateTime'', PStr (ascii ''2026-11-05T14:30:00'')),
                                       (ascii ''timeZone'', PStr (ascii ''America/Los_Angeles''))])])),
        [InsertEvent
          (PDict [(ascii ''summary'', PStr (ascii ''Write report'')),
                 (ascii ''start'', PDict [(ascii ''dateTime'', PStr (ascii ''2026-11-05T13:00:00'')),
                                         (ascii ''timeZone'', PStr (ascii ''America/Los_Angeles''))]),
                 (ascii ''end'', PDict [(ascii ''dateTime'', PStr (ascii ''2026-11-05T14:30:00'')),
                                       (ascii ''timeZone'', PStr (ascii ''America/Los_Angeles''))])])])"
    by blast
  show ?thesis
    unfolding 1 2 by (simp add: svc_demo_def)
qed

text \<open>
  Claim C6 as stated fails. The duration field holds "abc": \<open>int\<close> raises, the handler
  of \<open>add_task\<close> returns the failure without the two flags, and neither the Things
  script nor the calendar request is attempted, though the service is connected and
  both would succeed. The page keeps the draft and names both sides as failed.
\<close>

theorem add_task_bad_duration_attempts_nothing:
  "add_task api_online fromiso_demo (\<lambda>script. True) (ascii ''Write report'')
     (ascii ''2026-11-05T13:00:00'') (PStr (ascii ''abc''))
   = (AddFailure (StrOf ValueError), api_online, [])
   \<and> requests (addTask api_online fromiso_demo (\<lambda>script. True) draft_bad_duration) = []
   \<and> draft_after (addTask api_online fromiso_demo (\<lambda>script. True) draft_bad_duration)
     = draft_bad_duration
   \<and> toast (addTask api_online fromiso_demo (\<lambda>script. True) draft_bad_duration)
     = ascii ''Failed to add task (Things) (Calendar)''"
proof -
  have a: "add_task api_online fromiso_demo (\<lambda>script. True) (ascii ''Write report'')
     (ascii ''2026-11-05T13:00:00'') (PStr (ascii ''abc''))
   = (AddFailure (StrOf ValueError), api_online, [])"
    by (simp add: add_task_def exn_bind_def fromiso_demo_def py_int_abc) (simp add: ascii_def)
  have n: "js_trim (taskName draft_bad_duration) = ascii ''Write report''"
    by (simp add: draft_bad_duration_def js_trim_def js_space_def ascii_def)
  have p: "parsedTimeISO draft_bad_duration = Some (ascii ''2026-11-05T13:00:00'')"
    by (simp add: draft_bad_duration_def)
  have d: "duration_text draft_bad_duration = ascii ''abc''"
    by (simp add: duration_text_def draft_bad_duration_def js_trim_def js_space_def ascii_def)
  have t: "ascii ''2026-11-05T13:00:00'' \<noteq> []" "ascii ''Write report'' \<noteq> []"
    by (simp_all add: ascii_def)
  have "addTask api_online fromiso_demo (\<lambda>script. True) draft_bad_duration
        = \<lparr>draft_after = draft_bad_duration,
           toast = failure_toast (AddFailure (StrOf ValueError)),
           toast_is_error = True, refreshed = False, api_after = api_online, requests = []\<rparr>"
    using t by (simp add: addTask_def n p d a result_success_def Let_def)
  then show ?thesis using a by (simp add: failure_toast_def ascii_def)
qed

end
